theory Spec2Isabelle
  imports Main "HOL-Library.Word"
begin

section \<open>Data model of revocation/internal/crl/crl.go\<close>

text \<open>
  The Go types are embedded as follows.
  \<^item> \<open>time.Time\<close> is an instant: an integer count of nanoseconds from the zero
    instant of Go (January 1 of year 1, 00:00 UTC), so that \<open>IsZero\<close> is equality
    with 0 and \<open>Before\<close>/\<open>After\<close> are the strict orders. All instants compared by
    crl.go are compared by wall clock (a decoded timestamp has no monotonic reading).
  \<^item> The value of a \<open>big.Int\<close> is an \<open>int\<close>; \<open>asn1.ObjectIdentifier\<close> (a slice of int)
    is an \<open>int list\<close> and its \<open>Equal\<close> is list equality; \<open>[]byte\<close> is a list of 8-bit
    words.
  \<^item> A pointer that can be nil on an input the code receives is an \<open>option\<close>: the
    certificate, the bundle and its two lists, the fetcher, and the number of a
    revocation list, which the parser of the library leaves nil when the list has no
    CRL number extension. The issuer and the serial numbers, which the parser always
    sets, are their pointees.
  \<^item> Two Go structs may use one field name; a record field is a constant, so the
    repeated names carry a suffix naming their struct.
\<close>

type_synonym byte = "8 word"
type_synonym ObjectIdentifier = "int list"
type_synonym Time = int

definition IsZero :: "Time \<Rightarrow> bool" where
  "IsZero t = (t = 0)"

definition Before :: "Time \<Rightarrow> Time \<Rightarrow> bool" where
  "Before t u = (t < u)"

definition After :: "Time \<Rightarrow> Time \<Rightarrow> bool" where
  "After t u = (t > u)"

text \<open>\<open>pkix.Extension\<close>.\<close>

record Extension =
  Id_ext :: ObjectIdentifier
  Critical :: bool
  Value :: "byte list"

text \<open>
  \<open>x509.Certificate\<close>: the fields crl.go reads, and the encoded certificate, which only
  the signature check of the library reads.
\<close>

record Certificate =
  Raw_cert :: "byte list"
  SerialNumber_cert :: int
  CRLDistributionPoints :: "string list"
  Extensions_cert :: "Extension list"

text \<open>\<open>x509.RevocationListEntry\<close>; \<open>ReasonCode\<close> is a Go \<open>int\<close>.\<close>

record RevocationListEntry =
  SerialNumber_entry :: int
  RevocationTime :: Time
  ReasonCode :: int
  Extensions_entry :: "Extension list"

text \<open>
  \<open>x509.RevocationList\<close>, with the encoded list for the signature check. \<open>Number\<close> is
  a \<open>*big.Int\<close>, nil (\<open>None\<close>) on a list without a CRL number extension.
\<close>

record RevocationList =
  Raw_crl :: "byte list"
  Number :: "int option"
  NextUpdate :: Time
  RevokedCertificateEntries :: "RevocationListEntry list"
  Extensions_crl :: "Extension list"

text \<open>
  Modelled from the spec: the type \<open>crl.Bundle\<close> of package revocation/crl, whose
  declaration is not among the sources: a base CRL and an optional delta CRL. Both are
  pointers; \<open>checkRevocation\<close> tests both against nil.
\<close>

record Bundle =
  BaseCRL :: "RevocationList option"
  DeltaCRL :: "RevocationList option"

text \<open>
  Modelled from the spec: the types of package revocation/result, whose declarations
  are not among the sources. The constants are named as crl.go names them; of the
  revocation methods crl.go uses \<open>RevocationMethodCRL\<close> only.
\<close>

datatype Result = ResultUnknown | ResultOK | ResultNonRevokable | ResultRevoked

datatype RevocationMethod = RevocationMethodUnknown | RevocationMethodOCSP | RevocationMethodCRL

text \<open>
  The errors crl.go builds, one constructor for each message, carrying what the message
  formats. An error that comes from a library or from the fetcher is its text.
\<close>

datatype error =
    CertificateCannotBeNil
  | CRLBundleCannotBeNil
  | BaseCRLCannotBeNil
  | FailedToParseInvalidityDate string
  | InvalidityDateTrailingData
  | UnsupportedCriticalExtension ObjectIdentifier
  | CRLNotSignedByCA string
  | NextUpdateNotSet
  | ExpiredCRL Time Time
  | FailedToValidateBaseCRL error
  | FailedToValidateDeltaCRL error
  | DeltaCRLNumberNotGreater "int option" "int option"
  | DeltaCRLIndicatorNotFound
  | FailedToParseDeltaCRLIndicator
  | DeltaCRLIndicatorTooLarge int "int option"
  | FailedToDownloadCRL string string
  | FreshestCRLNotSupported
  | FailedToValidateCRL string error
  | FailedToCheckRevocation string error
  | CRLIsNotSupported
  | CRLFetcherCannotBeNil

record ServerResult =
  Result :: Result
  Server :: string
  Error :: "error option"
  RevocationMethod :: RevocationMethod

record CertRevocationResult =
  Result_cert :: Result
  ServerResults :: "ServerResult list"
  RevocationMethod_cert :: RevocationMethod

text \<open>A Go function either returns or panics.\<close>

datatype 'a outcome = Panic | Return 'a

text \<open>
  The functions of other libraries that crl.go calls are parameters of the model, so
  that every theorem holds for whatever they compute. \<open>'w\<close> is the state of the world
  outside the program: reading the clock and fetching a bundle take a world and return
  the next one.
  \<^item> \<open>CheckSignatureFrom\<close>: the method of \<open>x509.RevocationList\<close>, called on a pointer that
    may be nil; \<open>None\<close> is a nil error. On a nil list the method can return an error only
    by rejecting the issuer before it reads the list; \<open>None\<close> on a nil list stands for
    every other course, and the model panics at the next read of the nil list.
  \<^item> \<open>Now\<close>: \<open>time.Now\<close>.
  \<^item> \<open>UnmarshalGeneralizedTime\<close>: \<open>asn1.UnmarshalWithParams\<close> into a \<open>time.Time\<close>
    with parameter "generalized"; it returns the decoded instant and the bytes left over.
  \<^item> \<open>ReadASN1Integer\<close>: the method of \<open>cryptobyte.String\<close> reading into a \<open>big.Int\<close>;
    \<open>None\<close> is the result false.
  \<^item> \<open>CmpNil\<close>: what the method \<open>Cmp\<close> of \<open>big.Int\<close> does when the receiver or the
    argument is nil: it panics or returns a result.
\<close>

record 'w Library =
  CheckSignatureFrom :: "RevocationList option \<Rightarrow> Certificate \<Rightarrow> string option"
  Now :: "'w \<Rightarrow> Time \<times> 'w"
  UnmarshalGeneralizedTime :: "byte list \<Rightarrow> string + (Time \<times> byte list)"
  ReadASN1Integer :: "byte list \<Rightarrow> int option"
  CmpNil :: "int option \<Rightarrow> int option \<Rightarrow> int outcome"

text \<open>
  \<open>x.Cmp(y)\<close> on two \<open>*big.Int\<close>: -1, 0 or 1 as the value of \<open>x\<close> is less than, equal
  to or greater than that of \<open>y\<close>; with a nil pointer, what the library does.
\<close>

definition Cmp :: "'w Library \<Rightarrow> int option \<Rightarrow> int option \<Rightarrow> int outcome" where
  "Cmp env x y =
     (case x of
        None \<Rightarrow> CmpNil env x y
      | Some a \<Rightarrow>
          (case y of
             None \<Rightarrow> CmpNil env x y
           | Some b \<Rightarrow> Return (if a < b then - 1 else if a = b then 0 else 1)))"

section \<open>Constants\<close>

definition reasonCodeCertificateHold :: int where
  "reasonCodeCertificateHold = 6"

definition reasonCodeRemoveFromCRL :: int where
  "reasonCodeRemoveFromCRL = 8"

definition oidFreshestCRL :: ObjectIdentifier where
  "oidFreshestCRL = [2, 5, 29, 46]"

definition oidIssuingDistributionPoint :: ObjectIdentifier where
  "oidIssuingDistributionPoint = [2, 5, 29, 28]"

definition oidDeltaCRLIndicator :: ObjectIdentifier where
  "oidDeltaCRLIndicator = [2, 5, 29, 27]"

definition oidInvalidityDate :: ObjectIdentifier where
  "oidInvalidityDate = [2, 5, 29, 24]"

section \<open>parseEntryExtensions\<close>

record entryExtensions =
  invalidityDate :: Time

text \<open>
  The loop of \<open>parseEntryExtensions\<close> over \<open>entry.Extensions\<close>; the third argument is
  the variable \<open>extensions\<close>.
\<close>

fun parseEntryExtensions_loop ::
  "'w Library \<Rightarrow> Extension list \<Rightarrow> entryExtensions \<Rightarrow> error + entryExtensions" where
  "parseEntryExtensions_loop env [] extensions = Inr extensions"
| "parseEntryExtensions_loop env (ext # exts) extensions =
     (if Id_ext ext = oidInvalidityDate then
        (case UnmarshalGeneralizedTime env (Value ext) of
           Inl err \<Rightarrow> Inl (FailedToParseInvalidityDate err)
         | Inr (t, rest) \<Rightarrow>
             if length rest > 0 then Inl InvalidityDateTrailingData
             else parseEntryExtensions_loop env exts (extensions\<lparr>invalidityDate := t\<rparr>))
      else if Critical ext then Inl (UnsupportedCriticalExtension (Id_ext ext))
      else parseEntryExtensions_loop env exts extensions)"

definition parseEntryExtensions ::
  "'w Library \<Rightarrow> RevocationListEntry \<Rightarrow> error + entryExtensions" where
  "parseEntryExtensions env entry =
     parseEntryExtensions_loop env (Extensions_entry entry) \<lparr>invalidityDate = 0\<rparr>"

section \<open>checkRevocation\<close>

text \<open>
  \<open>revocationListIter\<close> yields the entries of the base CRL and then those of the delta
  CRL, if there is one. The consumer reads it front to back and may stop early, so the
  iterator is the list of what it would yield.
\<close>

definition revocationListIter :: "RevocationList \<Rightarrow> RevocationList option \<Rightarrow> RevocationListEntry list" where
  "revocationListIter base delta =
     RevokedCertificateEntries base @
     (case delta of None \<Rightarrow> [] | Some d \<Rightarrow> RevokedCertificateEntries d)"

text \<open>
  How the \<open>for ... range revocationListIter\<close> loop ends: with an error, with a
  \<open>return\<close> of a status from inside the loop, or by running out of entries with the
  final value of \<open>latestTempRevokedEntry\<close>.
\<close>

datatype walk_exit =
    Fail error
  | Stop Result
  | Finished "RevocationListEntry option"

fun walk ::
  "'w Library \<Rightarrow> Certificate \<Rightarrow> Time \<Rightarrow> RevocationListEntry list \<Rightarrow>
   RevocationListEntry option \<Rightarrow> walk_exit" where
  "walk env cert signingTime [] latestTempRevokedEntry = Finished latestTempRevokedEntry"
| "walk env cert signingTime (revocationEntry # es) latestTempRevokedEntry =
     (if SerialNumber_entry revocationEntry = SerialNumber_cert cert then
        (case parseEntryExtensions env revocationEntry of
           Inl err \<Rightarrow> Fail err
         | Inr extensions \<Rightarrow>
             if \<not> IsZero signingTime \<and> \<not> IsZero (invalidityDate extensions) \<and>
                Before signingTime (invalidityDate extensions)
             then Stop ResultOK
             else if ReasonCode revocationEntry = reasonCodeCertificateHold \<or>
                     ReasonCode revocationEntry = reasonCodeRemoveFromCRL
             then walk env cert signingTime es
                    (case latestTempRevokedEntry of
                       None \<Rightarrow> Some revocationEntry
                     | Some l \<Rightarrow>
                         if Before (RevocationTime l) (RevocationTime revocationEntry)
                         then Some revocationEntry else Some l)
             else Stop ResultRevoked)
      else walk env cert signingTime es latestTempRevokedEntry)"

text \<open>The \<open>result.ServerResult\<close> literal that \<open>checkRevocation\<close> returns in four places.\<close>

definition crlServerResult :: "Result \<Rightarrow> string \<Rightarrow> ServerResult" where
  "crlServerResult r crlURL =
     \<lparr>Result = r, Server = crlURL, Error = None, RevocationMethod = RevocationMethodCRL\<rparr>"

definition checkRevocation ::
  "'w Library \<Rightarrow> Certificate option \<Rightarrow> Bundle option \<Rightarrow> Time \<Rightarrow> string \<Rightarrow>
   error + ServerResult" where
  "checkRevocation env cert b signingTime crlURL =
     (case cert of
        None \<Rightarrow> Inl CertificateCannotBeNil
      | Some c \<Rightarrow>
     (case b of
        None \<Rightarrow> Inl CRLBundleCannotBeNil
      | Some bundle \<Rightarrow>
     (case BaseCRL bundle of
        None \<Rightarrow> Inl BaseCRLCannotBeNil
      | Some base \<Rightarrow>
     (case walk env c signingTime (revocationListIter base (DeltaCRL bundle)) None of
        Fail err \<Rightarrow> Inl err
      | Stop r \<Rightarrow> Inr (crlServerResult r crlURL)
      | Finished latestTempRevokedEntry \<Rightarrow>
          (case latestTempRevokedEntry of
             Some l \<Rightarrow>
               if ReasonCode l = reasonCodeCertificateHold
               then Inr (crlServerResult ResultRevoked crlURL)
               else Inr (crlServerResult ResultOK crlURL)
           | None \<Rightarrow> Inr (crlServerResult ResultOK crlURL))))))"

section \<open>validateCRL and validate\<close>

text \<open>
  Modelled from the spec: \<open>x509util.FindExtensionByOID\<close>, a function of this repository
  that is not among the sources. By the spec it returns the first extension of the
  list with the given object identifier, or none.
\<close>

definition FindExtensionByOID :: "Extension list \<Rightarrow> ObjectIdentifier \<Rightarrow> Extension option" where
  "FindExtensionByOID extensions oid = find (\<lambda>extension. Id_ext extension = oid) extensions"

text \<open>The loop of \<open>validateCRL\<close> over \<open>crl.Extensions\<close>.\<close>

fun validateCRL_extensions :: "Extension list \<Rightarrow> error option" where
  "validateCRL_extensions [] = None"
| "validateCRL_extensions (ext # exts) =
     (if Id_ext ext = oidIssuingDistributionPoint then validateCRL_extensions exts
      else if Id_ext ext = oidDeltaCRLIndicator then validateCRL_extensions exts
      else if Critical ext then Some (UnsupportedCriticalExtension (Id_ext ext))
      else validateCRL_extensions exts)"

text \<open>
  \<open>validateCRL\<close> returns its error (\<open>None\<close> is nil), or panics, and the world after it:
  the clock is read once, and only when the signature verifies and \<open>NextUpdate\<close> is set.
  \<open>validate\<close> calls it on \<open>bundle.BaseCRL\<close> with no test against nil: the signature
  check is then a method call on the nil list, and when that returns no error the read
  of \<open>crl.NextUpdate\<close> panics.
\<close>

definition validateCRL ::
  "'w Library \<Rightarrow> RevocationList option \<Rightarrow> Certificate \<Rightarrow> 'w \<Rightarrow> error option outcome \<times> 'w" where
  "validateCRL env crl issuer w =
     (case CheckSignatureFrom env crl issuer of
        Some err \<Rightarrow> (Return (Some (CRLNotSignedByCA err)), w)
      | None \<Rightarrow>
     (case crl of
        None \<Rightarrow> (Panic, w)
      | Some l \<Rightarrow>
          if IsZero (NextUpdate l) then (Return (Some NextUpdateNotSet), w)
          else
            (case Now env w of
               (now, w') \<Rightarrow>
                 if After now (NextUpdate l)
                 then (Return (Some (ExpiredCRL now (NextUpdate l))), w')
                 else (Return (validateCRL_extensions (Extensions_crl l)), w'))))"

text \<open>
  \<open>validate\<close>. The two comparisons of numbers are calls of \<open>Cmp\<close> on the \<open>Number\<close>
  pointers of the lists, which panic or return as the library does when a number is
  nil. The delta CRL is not nil where it is validated; reading \<open>baseCRL.Number\<close> of a
  nil base CRL would panic.
\<close>

definition validate ::
  "'w Library \<Rightarrow> Bundle \<Rightarrow> Certificate \<Rightarrow> 'w \<Rightarrow> error option outcome \<times> 'w" where
  "validate env bundle issuer w =
     (case validateCRL env (BaseCRL bundle) issuer w of
        (Panic, w1) \<Rightarrow> (Panic, w1)
      | (Return (Some err), w1) \<Rightarrow> (Return (Some (FailedToValidateBaseCRL err)), w1)
      | (Return None, w1) \<Rightarrow>
     (case DeltaCRL bundle of
        None \<Rightarrow> (Return None, w1)
      | Some deltaCRL \<Rightarrow>
     (case validateCRL env (Some deltaCRL) issuer w1 of
        (Panic, w2) \<Rightarrow> (Panic, w2)
      | (Return (Some err), w2) \<Rightarrow> (Return (Some (FailedToValidateDeltaCRL err)), w2)
      | (Return None, w2) \<Rightarrow>
     (case BaseCRL bundle of
        None \<Rightarrow> (Panic, w2)
      | Some baseCRL \<Rightarrow>
     (case Cmp env (Number deltaCRL) (Number baseCRL) of
        Panic \<Rightarrow> (Panic, w2)
      | Return c \<Rightarrow>
          if c \<le> 0
          then (Return (Some (DeltaCRLNumberNotGreater (Number deltaCRL) (Number baseCRL))), w2)
          else
            (case FindExtensionByOID (Extensions_crl deltaCRL) oidDeltaCRLIndicator of
               None \<Rightarrow> (Return (Some DeltaCRLIndicatorNotFound), w2)
             | Some extension \<Rightarrow>
                 (case ReadASN1Integer env (Value extension) of
                    None \<Rightarrow> (Return (Some FailedToParseDeltaCRLIndicator), w2)
                  | Some minimumBaseCRLNumber \<Rightarrow>
                      (case Cmp env (Some minimumBaseCRLNumber) (Number baseCRL) of
                         Panic \<Rightarrow> (Panic, w2)
                       | Return c' \<Rightarrow>
                           if c' > 0
                           then (Return (Some (DeltaCRLIndicatorTooLarge minimumBaseCRLNumber
                                                 (Number baseCRL))), w2)
                           else (Return None, w2)))))))))"

section \<open>CertCheckStatus\<close>

text \<open>
  Modelled from the spec: the interface \<open>crl.Fetcher\<close> of package revocation/crl, whose
  declaration is not among the sources. Its one method \<open>Fetch\<close> returns a bundle or an
  error. The model of a fetcher is that method, as a function of the URL and the world;
  the context argument only reaches the fetcher and is left out. \<open>opts.Fetcher\<close> may
  be nil.
\<close>

type_synonym 'w Fetcher = "string \<Rightarrow> 'w \<Rightarrow> (string + Bundle) \<times> 'w"

record 'w CertCheckStatusOptions =
  Fetcher :: "'w Fetcher option"
  SigningTime :: Time

definition Supported :: "Certificate option \<Rightarrow> bool" where
  "Supported cert =
     (case cert of None \<Rightarrow> False | Some c \<Rightarrow> length (CRLDistributionPoints c) > 0)"

text \<open>
  The variables of \<open>CertCheckStatus\<close> that the loop over the distribution points
  assigns and the code after the loop reads.
\<close>

record loop_vars =
  serverResults :: "ServerResult list"
  lastErr :: "error option"
  crlURL :: string

text \<open>
  How the loop ends: by a panic, by the \<open>return\<close> inside the loop, or by leaving the
  loop (exhausted, or by \<open>break\<close>) with the variables as they are then.
\<close>

datatype loop_exit =
    Panicked
  | Returned CertRevocationResult
  | Left loop_vars

text \<open>
  The loop over \<open>cert.CRLDistributionPoints\<close>. Besides the world it threads the list
  of URLs on which \<open>Fetch\<close> has been called, in call order.
\<close>

fun CertCheckStatus_loop ::
  "'w Library \<Rightarrow> Certificate \<Rightarrow> Certificate \<Rightarrow> 'w Fetcher \<Rightarrow> Time \<Rightarrow> bool \<Rightarrow>
   string list \<Rightarrow> loop_vars \<Rightarrow> 'w \<Rightarrow> string list \<Rightarrow> loop_exit \<times> 'w \<times> string list" where
  "CertCheckStatus_loop env cert issuer fetch signingTime hasFreshestCRLInCertificate
     [] vars w fetched = (Left vars, w, fetched)"
| "CertCheckStatus_loop env cert issuer fetch signingTime hasFreshestCRLInCertificate
     (url # urls) vars w fetched =
     (case fetch url w of
        (Inl err, w1) \<Rightarrow>
          (Left (vars\<lparr>crlURL := url, lastErr := Some (FailedToDownloadCRL url err)\<rparr>),
           w1, fetched @ [url])
      | (Inr bundle, w1) \<Rightarrow>
          if hasFreshestCRLInCertificate \<and> DeltaCRL bundle = None
          then (Left (vars\<lparr>crlURL := url, lastErr := Some FreshestCRLNotSupported\<rparr>),
                w1, fetched @ [url])
          else
            (case validate env bundle issuer w1 of
               (Panic, w2) \<Rightarrow> (Panicked, w2, fetched @ [url])
             | (Return (Some err), w2) \<Rightarrow>
                 (Left (vars\<lparr>crlURL := url, lastErr := Some (FailedToValidateCRL url err)\<rparr>),
                  w2, fetched @ [url])
             | (Return None, w2) \<Rightarrow>
                 (case checkRevocation env (Some cert) (Some bundle) signingTime url of
                    Inl err \<Rightarrow>
                      (Left (vars\<lparr>crlURL := url,
                                  lastErr := Some (FailedToCheckRevocation url err)\<rparr>),
                       w2, fetched @ [url])
                  | Inr crlResult \<Rightarrow>
                      if Result crlResult = ResultRevoked
                      then (Returned \<lparr>Result_cert = ResultRevoked,
                                      ServerResults = [crlResult],
                                      RevocationMethod_cert = RevocationMethodCRL\<rparr>,
                            w2, fetched @ [url])
                      else CertCheckStatus_loop env cert issuer fetch signingTime
                             hasFreshestCRLInCertificate urls
                             (vars\<lparr>crlURL := url,
                                   serverResults := serverResults vars @ [crlResult]\<rparr>)
                             w2 (fetched @ [url]))))"

text \<open>
  \<open>CertCheckStatus\<close> returns its result (or panics), the world after it and the URLs
  it fetched. After \<open>Supported\<close> the certificate is not nil.
\<close>

definition CertCheckStatus ::
  "'w Library \<Rightarrow> Certificate option \<Rightarrow> Certificate \<Rightarrow> 'w CertCheckStatusOptions \<Rightarrow> 'w \<Rightarrow>
   CertRevocationResult outcome \<times> 'w \<times> string list" where
  "CertCheckStatus env cert issuer opts w =
     (if \<not> Supported cert then
        (Return \<lparr>Result_cert = ResultNonRevokable,
                 ServerResults = [\<lparr>Result = ResultNonRevokable, Server = [],
                                    Error = Some CRLIsNotSupported,
                                    RevocationMethod = RevocationMethodCRL\<rparr>],
                 RevocationMethod_cert = RevocationMethodCRL\<rparr>, w, [])
      else
     (case Fetcher opts of
        None \<Rightarrow>
          (Return \<lparr>Result_cert = ResultUnknown,
                   ServerResults = [\<lparr>Result = ResultUnknown, Server = [],
                                      Error = Some CRLFetcherCannotBeNil,
                                      RevocationMethod = RevocationMethodCRL\<rparr>],
                   RevocationMethod_cert = RevocationMethodCRL\<rparr>, w, [])
      | Some fetch \<Rightarrow>
     (case cert of
        None \<Rightarrow> (Panic, w, [])
      | Some c \<Rightarrow>
     (case CertCheckStatus_loop env c issuer fetch (SigningTime opts)
             (FindExtensionByOID (Extensions_cert c) oidFreshestCRL \<noteq> None)
             (CRLDistributionPoints c)
             \<lparr>serverResults = [], lastErr = None, crlURL = []\<rparr> w [] of
        (Panicked, w', fetched) \<Rightarrow> (Panic, w', fetched)
      | (Returned r, w', fetched) \<Rightarrow> (Return r, w', fetched)
      | (Left vars, w', fetched) \<Rightarrow>
          (case lastErr vars of
             Some err \<Rightarrow>
               (Return \<lparr>Result_cert = ResultUnknown,
                        ServerResults = [\<lparr>Result = ResultUnknown, Server = crlURL vars,
                                           Error = Some err,
                                           RevocationMethod = RevocationMethodCRL\<rparr>],
                        RevocationMethod_cert = RevocationMethodCRL\<rparr>, w', fetched)
           | None \<Rightarrow>
               (Return \<lparr>Result_cert = ResultOK,
                        ServerResults = serverResults vars,
                        RevocationMethod_cert = RevocationMethodCRL\<rparr>, w', fetched))))))"

section \<open>Predicates used in the statements\<close>

text \<open>
  \<open>rejects env ext\<close>: the extension is one on which the loop of
  \<open>parseEntryExtensions\<close> returns an error: an invalidity date that does not decode or
  leaves bytes over, or a critical extension with another identifier.
\<close>

definition rejects :: "'w Library \<Rightarrow> Extension \<Rightarrow> bool" where
  "rejects env ext =
     (if Id_ext ext = oidInvalidityDate then
        (case UnmarshalGeneralizedTime env (Value ext) of
           Inl err \<Rightarrow> True
         | Inr (t, rest) \<Rightarrow> rest \<noteq> [])
      else Critical ext)"

text \<open>
  \<open>earlier_urls_ok ... urls w = Some (rs, w')\<close>: starting in the world \<open>w\<close>, each URL of
  the list, in order, is fetched (\<open>Fetch\<close> returns a bundle), is not refused for the
  freshest CRL of the certificate, is validated (\<open>validate\<close> returns nil) and is
  resolved (\<open>checkRevocation\<close> returns a result) to a status other than Revoked; \<open>rs\<close>
  are the results, in order, and \<open>w'\<close> is the world afterwards.
\<close>

fun earlier_urls_ok ::
  "'w Library \<Rightarrow> Certificate \<Rightarrow> Certificate \<Rightarrow> 'w Fetcher \<Rightarrow> Time \<Rightarrow> bool \<Rightarrow>
   string list \<Rightarrow> 'w \<Rightarrow> (ServerResult list \<times> 'w) option" where
  "earlier_urls_ok env cert issuer fetch signingTime hasFreshestCRLInCertificate [] w =
     Some ([], w)"
| "earlier_urls_ok env cert issuer fetch signingTime hasFreshestCRLInCertificate (url # urls) w =
     (case fetch url w of
        (Inl err, w1) \<Rightarrow> None
      | (Inr bundle, w1) \<Rightarrow>
          if hasFreshestCRLInCertificate \<and> DeltaCRL bundle = None then None
          else
            (case validate env bundle issuer w1 of
               (Panic, w2) \<Rightarrow> None
             | (Return (Some err), w2) \<Rightarrow> None
             | (Return None, w2) \<Rightarrow>
                 (case checkRevocation env (Some cert) (Some bundle) signingTime url of
                    Inl err \<Rightarrow> None
                  | Inr r \<Rightarrow>
                      if Result r = ResultRevoked then None
                      else
                        (case earlier_urls_ok env cert issuer fetch signingTime
                                hasFreshestCRLInCertificate urls w2 of
                           None \<Rightarrow> None
                         | Some (rs, w3) \<Rightarrow> Some (r # rs, w3)))))"

section \<open>Concrete inputs\<close>

text \<open>
  A small library for the closed instances below. The world is a counter. The
  signature check accepts a list whose encoding equals the issuer's; the clock shows
  the counter and advances it; the two decoders are stand-ins that read the first byte
  as the value and leave the other bytes over (the integer decoder drops them); a
  comparison with a nil number gives 0 when both are nil (the same pointer) and panics
  otherwise, as \<open>big.Int.Cmp\<close> does. The
  fetcher \<open>testFetcher\<close> serves four bundles under four URLs, fails on every other
  URL, and advances the counter on every call. The certificate under test has serial
  number 42.
\<close>

definition testLibrary :: "nat Library" where
  "testLibrary =
     \<lparr>CheckSignatureFrom =
        (\<lambda>crl issuer.
           case crl of
             None \<Rightarrow> None
           | Some l \<Rightarrow> if Raw_crl l = Raw_cert issuer then None else Some ''signature mismatch''),
      Now = (\<lambda>w. (int w, Suc w)),
      UnmarshalGeneralizedTime = (\<lambda>bs. case bs of [] \<Rightarrow> Inl ''truncated'' | b # rest \<Rightarrow> Inr (uint b, rest)),
      ReadASN1Integer = (\<lambda>bs. case bs of [] \<Rightarrow> None | b # rest \<Rightarrow> Some (uint b)),
      CmpNil = (\<lambda>x y. if x = None \<and> y = None then Return 0 else Panic)\<rparr>"

definition invalidityDateExtension :: "byte list \<Rightarrow> Extension" where
  "invalidityDateExtension v = \<lparr>Id_ext = oidInvalidityDate, Critical = False, Value = v\<rparr>"

definition otherExtension :: "bool \<Rightarrow> Extension" where
  "otherExtension critical = \<lparr>Id_ext = [1, 2, 3], Critical = critical, Value = []\<rparr>"

definition testEntry :: "int \<Rightarrow> Time \<Rightarrow> int \<Rightarrow> Extension list \<Rightarrow> RevocationListEntry" where
  "testEntry serial t reason exts =
     \<lparr>SerialNumber_entry = serial, RevocationTime = t, ReasonCode = reason,
      Extensions_entry = exts\<rparr>"

definition testCRL :: "int \<Rightarrow> Time \<Rightarrow> RevocationListEntry list \<Rightarrow> Extension list \<Rightarrow> RevocationList" where
  "testCRL n t entries exts =
     \<lparr>Raw_crl = [1], Number = Some n, NextUpdate = t, RevokedCertificateEntries = entries,
      Extensions_crl = exts\<rparr>"

definition testIssuer :: Certificate where
  "testIssuer = \<lparr>Raw_cert = [1], SerialNumber_cert = 1, CRLDistributionPoints = [],
                 Extensions_cert = []\<rparr>"

definition crlExtension :: "ObjectIdentifier \<Rightarrow> bool \<Rightarrow> byte list \<Rightarrow> Extension" where
  "crlExtension oid critical v = \<lparr>Id_ext = oid, Critical = critical, Value = v\<rparr>"

definition testCert :: "int \<Rightarrow> string list \<Rightarrow> Extension list \<Rightarrow> Certificate" where
  "testCert serial urls exts =
     \<lparr>Raw_cert = [2], SerialNumber_cert = serial, CRLDistributionPoints = urls,
      Extensions_cert = exts\<rparr>"

definition testBundle :: "RevocationList \<Rightarrow> RevocationList option \<Rightarrow> Bundle" where
  "testBundle base delta = \<lparr>BaseCRL = Some base, DeltaCRL = delta\<rparr>"

definition testFetcher :: "nat Fetcher" where
  "testFetcher url w =
     (if url = ''http://crl.example/good'' then
        (Inr (testBundle (testCRL 5 100 [testEntry 7 3 1 []] []) None), Suc w)
      else if url = ''http://crl.example/revoked'' then
        (Inr (testBundle (testCRL 5 100 [testEntry 42 3 1 []] []) None), Suc w)
      else if url = ''http://crl.example/expired'' then
        (Inr (testBundle (testCRL 5 1 [] []) None), Suc w)
      else if url = ''http://crl.example/broken'' then
        (Inr (testBundle (testCRL 5 100 [testEntry 42 3 1 [otherExtension True]] []) None), Suc w)
      else (Inl ''not found'', Suc w))"

definition testOptions :: "Time \<Rightarrow> nat CertCheckStatusOptions" where
  "testOptions t = \<lparr>Fetcher = Some testFetcher, SigningTime = t\<rparr>"

section \<open>Properties of parseEntryExtensions\<close>

text \<open>The definitions that the closed instances unfold.\<close>

lemmas test_defs = testLibrary_def invalidityDateExtension_def otherExtension_def testEntry_def
  oidInvalidityDate_def oidDeltaCRLIndicator_def oidIssuingDistributionPoint_def oidFreshestCRL_def

lemmas test_defs2 = test_defs
  testCRL_def testIssuer_def crlExtension_def IsZero_def After_def Before_def Cmp_def

lemma parseEntryExtensions_loop_fails_iff:
  "isl (parseEntryExtensions_loop env exts acc) = (\<exists>ext\<in>set exts. rejects env ext)"
  by (induction exts arbitrary: acc) (auto simp: rejects_def split: sum.splits prod.splits)

lemma parseEntryExtensions_loop_ignores:
  "parseEntryExtensions_loop env (filter (\<lambda>ext. Id_ext ext = oidInvalidityDate \<or> Critical ext) exts) acc
   = parseEntryExtensions_loop env exts acc"
  by (induction exts arbitrary: acc) (auto split: sum.splits prod.splits)

lemma parseEntryExtensions_loop_value:
  "parseEntryExtensions_loop env exts acc = Inr x \<Longrightarrow>
   (filter (\<lambda>ext. Id_ext ext = oidInvalidityDate) exts = [] \<and> x = acc) \<or>
   (\<exists>ds d. filter (\<lambda>ext. Id_ext ext = oidInvalidityDate) exts = ds @ [d] \<and>
      UnmarshalGeneralizedTime env (Value d) = Inr (invalidityDate x, []))"
proof (induction exts arbitrary: acc)
  case Nil
  then show ?case by simp
next
  case (Cons ext exts)
  show ?case
  proof (cases "Id_ext ext = oidInvalidityDate")
    case False
    with Cons show ?thesis by (auto split: if_splits)
  next
    case True
    from Cons.prems True obtain t where
      u: "UnmarshalGeneralizedTime env (Value ext) = Inr (t, [])" and
      r: "parseEntryExtensions_loop env exts (acc\<lparr>invalidityDate := t\<rparr>) = Inr x"
      by (auto split: sum.splits prod.splits if_splits)
    from Cons.IH [OF r] show ?thesis
    proof
      assume "filter (\<lambda>ext. Id_ext ext = oidInvalidityDate) exts = [] \<and> x = acc\<lparr>invalidityDate := t\<rparr>"
      with True u show ?thesis by simp
    next
      assume "\<exists>ds d. filter (\<lambda>ext. Id_ext ext = oidInvalidityDate) exts = ds @ [d] \<and>
        UnmarshalGeneralizedTime env (Value d) = Inr (invalidityDate x, [])"
      then obtain ds d where "filter (\<lambda>ext. Id_ext ext = oidInvalidityDate) exts = ds @ [d]"
        "UnmarshalGeneralizedTime env (Value d) = Inr (invalidityDate x, [])" by blast
      with True have "filter (\<lambda>ext. Id_ext ext = oidInvalidityDate) (ext # exts) = (ext # ds) @ [d]"
        by simp
      with \<open>UnmarshalGeneralizedTime env (Value d) = Inr (invalidityDate x, [])\<close>
      show ?thesis by blast
    qed
  qed
qed



text \<open>
  C9. \<open>parseEntryExtensions\<close> returns an error when some invalidity-date extension of
  the entry has a value that does not decode as a generalized time, or decodes with
  bytes left over, and when some extension with another identifier is critical. The
  non-critical extensions with other identifiers are ignored: removing them from the
  entry does not change the result. When it succeeds, the invalidity date it returns is
  the zero instant if the entry has no invalidity-date extension, and otherwise the
  instant decoded from the whole value of such an extension (the last one).
\<close>

theorem parseEntryExtensions_errors_and_value:
  "(\<forall>ext\<in>set (Extensions_entry entry).
      Id_ext ext = oidInvalidityDate \<and>
      (\<exists>err. UnmarshalGeneralizedTime env (Value ext) = Inl err)
      \<longrightarrow> isl (parseEntryExtensions env entry)) \<and>
   (\<forall>ext\<in>set (Extensions_entry entry).
      Id_ext ext = oidInvalidityDate \<and>
      (\<exists>t rest. UnmarshalGeneralizedTime env (Value ext) = Inr (t, rest) \<and> rest \<noteq> [])
      \<longrightarrow> isl (parseEntryExtensions env entry)) \<and>
   (\<forall>ext\<in>set (Extensions_entry entry).
      Id_ext ext \<noteq> oidInvalidityDate \<and> Critical ext
      \<longrightarrow> isl (parseEntryExtensions env entry)) \<and>
   parseEntryExtensions env
     (entry\<lparr>Extensions_entry :=
        filter (\<lambda>ext. Id_ext ext = oidInvalidityDate \<or> Critical ext) (Extensions_entry entry)\<rparr>)
     = parseEntryExtensions env entry \<and>
   (\<forall>x. parseEntryExtensions env entry = Inr x \<longrightarrow>
      (filter (\<lambda>ext. Id_ext ext = oidInvalidityDate) (Extensions_entry entry) = [] \<and>
       invalidityDate x = 0) \<or>
      (\<exists>ds d. filter (\<lambda>ext. Id_ext ext = oidInvalidityDate) (Extensions_entry entry) = ds @ [d] \<and>
         UnmarshalGeneralizedTime env (Value d) = Inr (invalidityDate x, [])))"
proof -
  have fails: "isl (parseEntryExtensions env entry) =
      (\<exists>ext\<in>set (Extensions_entry entry). rejects env ext)"
    by (simp add: parseEntryExtensions_def parseEntryExtensions_loop_fails_iff)
  have a: "\<forall>ext\<in>set (Extensions_entry entry).
      Id_ext ext = oidInvalidityDate \<and>
      (\<exists>err. UnmarshalGeneralizedTime env (Value ext) = Inl err)
      \<longrightarrow> isl (parseEntryExtensions env entry)"
    unfolding fails by (force simp: rejects_def)
  have b: "\<forall>ext\<in>set (Extensions_entry entry).
      Id_ext ext = oidInvalidityDate \<and>
      (\<exists>t rest. UnmarshalGeneralizedTime env (Value ext) = Inr (t, rest) \<and> rest \<noteq> [])
      \<longrightarrow> isl (parseEntryExtensions env entry)"
    unfolding fails by (force simp: rejects_def)
  have c: "\<forall>ext\<in>set (Extensions_entry entry).
      Id_ext ext \<noteq> oidInvalidityDate \<and> Critical ext
      \<longrightarrow> isl (parseEntryExtensions env entry)"
    unfolding fails by (force simp: rejects_def)
  have d: "parseEntryExtensions env
     (entry\<lparr>Extensions_entry :=
        filter (\<lambda>ext. Id_ext ext = oidInvalidityDate \<or> Critical ext) (Extensions_entry entry)\<rparr>)
     = parseEntryExtensions env entry"
    by (simp add: parseEntryExtensions_def parseEntryExtensions_loop_ignores)
  have e: "\<forall>x. parseEntryExtensions env entry = Inr x \<longrightarrow>
      (filter (\<lambda>ext. Id_ext ext = oidInvalidityDate) (Extensions_entry entry) = [] \<and>
       invalidityDate x = 0) \<or>
      (\<exists>ds d. filter (\<lambda>ext. Id_ext ext = oidInvalidityDate) (Extensions_entry entry) = ds @ [d] \<and>
         UnmarshalGeneralizedTime env (Value d) = Inr (invalidityDate x, []))"
  proof (intro allI impI)
    fix x assume "parseEntryExtensions env entry = Inr x"
    then have "parseEntryExtensions_loop env (Extensions_entry entry) \<lparr>invalidityDate = 0\<rparr> = Inr x"
      by (simp add: parseEntryExtensions_def)
    from parseEntryExtensions_loop_value [OF this]
    show "(filter (\<lambda>ext. Id_ext ext = oidInvalidityDate) (Extensions_entry entry) = [] \<and>
       invalidityDate x = 0) \<or>
      (\<exists>ds d. filter (\<lambda>ext. Id_ext ext = oidInvalidityDate) (Extensions_entry entry) = ds @ [d] \<and>
         UnmarshalGeneralizedTime env (Value d) = Inr (invalidityDate x, []))"
      by auto
  qed
  from a b c d e show ?thesis by blast
qed

theorem parseEntryExtensions_errors_and_value_witness:
  "isl (parseEntryExtensions testLibrary (testEntry 42 10 1 [invalidityDateExtension []])) \<and>
   isl (parseEntryExtensions testLibrary (testEntry 42 10 1 [invalidityDateExtension [5, 0]])) \<and>
   isl (parseEntryExtensions testLibrary
          (testEntry 42 10 1 [invalidityDateExtension [5], otherExtension True])) \<and>
   parseEntryExtensions testLibrary (testEntry 42 10 1 [invalidityDateExtension [5]])
     = parseEntryExtensions testLibrary
         (testEntry 42 10 1 [otherExtension False, invalidityDateExtension [5]]) \<and>
   parseEntryExtensions testLibrary
     (testEntry 42 10 1 [otherExtension False, invalidityDateExtension [5]])
     = Inr \<lparr>invalidityDate = 5\<rparr> \<and>
   UnmarshalGeneralizedTime testLibrary (Value (invalidityDateExtension [5])) = Inr (5, [])"
proof -
  let ?e1 = "testEntry 42 10 1 [invalidityDateExtension []]"
  let ?e2 = "testEntry 42 10 1 [invalidityDateExtension [5, 0]]"
  let ?e3 = "testEntry 42 10 1 [invalidityDateExtension [5], otherExtension True]"
  let ?e4 = "testEntry 42 10 1 [otherExtension False, invalidityDateExtension [5]]"
  have 1: "isl (parseEntryExtensions testLibrary ?e1)"
    using parseEntryExtensions_errors_and_value [of ?e1 testLibrary]
    by (simp add: test_defs)
  have 2: "isl (parseEntryExtensions testLibrary ?e2)"
    using parseEntryExtensions_errors_and_value [of ?e2 testLibrary]
    by (simp add: test_defs)
  have 3: "isl (parseEntryExtensions testLibrary ?e3)"
    using parseEntryExtensions_errors_and_value [of ?e3 testLibrary]
    by (simp add: test_defs)
  have 4: "parseEntryExtensions testLibrary (testEntry 42 10 1 [invalidityDateExtension [5]])
     = parseEntryExtensions testLibrary ?e4"
    using parseEntryExtensions_errors_and_value [of ?e4 testLibrary]
    by (simp add: test_defs)
  have 5: "parseEntryExtensions testLibrary ?e4 = Inr \<lparr>invalidityDate = 5\<rparr>"
    by (simp add: parseEntryExtensions_def test_defs)
  have 6: "UnmarshalGeneralizedTime testLibrary (Value (invalidityDateExtension [5])) = Inr (5, [])"
    using parseEntryExtensions_errors_and_value [of ?e4 testLibrary] 5
    by (simp add: test_defs)
  from 1 2 3 4 5 6 show ?thesis by blast
qed


text \<open>
  C10 (as amended). When an entry carries more than one invalidity-date extension,
  each of them decodes as a generalized time with no byte left over, and no extension
  of the entry with another identifier is critical, \<open>parseEntryExtensions\<close> succeeds and
  returns the instant decoded from the last invalidity-date extension of the list.
\<close>

theorem parseEntryExtensions_last_invalidityDate:
  assumes many: "1 < length (filter (\<lambda>ext. Id_ext ext = oidInvalidityDate) (Extensions_entry entry))"
    and wellformed: "\<forall>ext\<in>set (Extensions_entry entry). Id_ext ext = oidInvalidityDate \<longrightarrow>
           (\<exists>t. UnmarshalGeneralizedTime env (Value ext) = Inr (t, []))"
    and others: "\<forall>ext\<in>set (Extensions_entry entry). Id_ext ext \<noteq> oidInvalidityDate \<longrightarrow>
           \<not> Critical ext"
  shows "\<exists>t. UnmarshalGeneralizedTime env
                (Value (last (filter (\<lambda>ext. Id_ext ext = oidInvalidityDate) (Extensions_entry entry))))
              = Inr (t, []) \<and>
             parseEntryExtensions env entry = Inr \<lparr>invalidityDate = t\<rparr>"
proof -
  have "\<not> (\<exists>ext\<in>set (Extensions_entry entry). rejects env ext)"
    using wellformed others by (auto simp: rejects_def)
  then have "\<not> isl (parseEntryExtensions env entry)"
    by (simp add: parseEntryExtensions_def parseEntryExtensions_loop_fails_iff)
  then obtain x where x: "parseEntryExtensions env entry = Inr x"
    by (cases "parseEntryExtensions env entry") auto
  then have "parseEntryExtensions_loop env (Extensions_entry entry) \<lparr>invalidityDate = 0\<rparr> = Inr x"
    by (simp add: parseEntryExtensions_def)
  from parseEntryExtensions_loop_value [OF this] many obtain ds d where
    f: "filter (\<lambda>ext. Id_ext ext = oidInvalidityDate) (Extensions_entry entry) = ds @ [d]" and
    u: "UnmarshalGeneralizedTime env (Value d) = Inr (invalidityDate x, [])"
    by auto
  have "x = \<lparr>invalidityDate = invalidityDate x\<rparr>" by simp
  with x have "parseEntryExtensions env entry = Inr \<lparr>invalidityDate = invalidityDate x\<rparr>" by simp
  with f u show ?thesis by auto
qed

theorem parseEntryExtensions_last_invalidityDate_witness:
  "parseEntryExtensions testLibrary
     (testEntry 42 10 1 [invalidityDateExtension [5], otherExtension False, invalidityDateExtension [7]])
   = Inr \<lparr>invalidityDate = 7\<rparr>"
  using parseEntryExtensions_last_invalidityDate
    [of "testEntry 42 10 1 [invalidityDateExtension [5], otherExtension False, invalidityDateExtension [7]]"
        testLibrary]
  by (simp add: test_defs)

text \<open>
  Without the condition on the other extensions the statement fails: an entry with two
  well-formed invalidity dates and a critical extension of another kind is an error.
\<close>

theorem parseEntryExtensions_last_invalidityDate_counterexample:
  "Extensions_entry
     (testEntry 42 10 1 [invalidityDateExtension [5], invalidityDateExtension [7], otherExtension True])
     = [invalidityDateExtension [5], invalidityDateExtension [7], otherExtension True] \<and>
   Id_ext (invalidityDateExtension [5]) = oidInvalidityDate \<and>
   Id_ext (invalidityDateExtension [7]) = oidInvalidityDate \<and>
   Id_ext (otherExtension True) \<noteq> oidInvalidityDate \<and>
   UnmarshalGeneralizedTime testLibrary (Value (invalidityDateExtension [5])) = Inr (5, []) \<and>
   UnmarshalGeneralizedTime testLibrary (Value (invalidityDateExtension [7])) = Inr (7, []) \<and>
   parseEntryExtensions testLibrary
     (testEntry 42 10 1 [invalidityDateExtension [5], invalidityDateExtension [7], otherExtension True])
     = Inl (UnsupportedCriticalExtension [1, 2, 3])"
  by (simp add: parseEntryExtensions_def test_defs)


section \<open>Properties of validateCRL\<close>

lemma validateCRL_extensions_find:
  "validateCRL_extensions exts =
     (case find (\<lambda>ext. Id_ext ext \<noteq> oidIssuingDistributionPoint \<and>
                       Id_ext ext \<noteq> oidDeltaCRLIndicator \<and> Critical ext) exts of
        None \<Rightarrow> None
      | Some ext \<Rightarrow> Some (UnsupportedCriticalExtension (Id_ext ext)))"
  by (induction exts) auto


text \<open>
  C8. On a CRL whose signature verifies and whose \<open>NextUpdate\<close> is set and not passed,
  \<open>validateCRL\<close> is decided by the first extension that is critical and is neither the
  issuing distribution point nor the delta CRL indicator: with none it succeeds, and
  otherwise it fails with the unsupported-critical-extension error of that extension.
  So an issuing distribution point and a delta CRL indicator are accepted whatever
  their criticality and value, and the other non-critical extensions are ignored.
\<close>

theorem validateCRL_extension_policy:
  assumes "CheckSignatureFrom env (Some crl) issuer = None"
    and "\<not> IsZero (NextUpdate crl)"
    and "Now env w = (now, w')"
    and "\<not> After now (NextUpdate crl)"
  shows "validateCRL env (Some crl) issuer w =
     (Return
        (case find (\<lambda>ext. Id_ext ext \<noteq> oidIssuingDistributionPoint \<and>
                          Id_ext ext \<noteq> oidDeltaCRLIndicator \<and> Critical ext) (Extensions_crl crl) of
           None \<Rightarrow> None
         | Some ext \<Rightarrow> Some (UnsupportedCriticalExtension (Id_ext ext))), w')"
  using assms by (simp add: validateCRL_def validateCRL_extensions_find)

theorem validateCRL_extension_policy_witness:
  "validateCRL testLibrary
     (Some (testCRL 5 100 [] [crlExtension oidIssuingDistributionPoint True [9],
                              crlExtension oidDeltaCRLIndicator True [9],
                              otherExtension False])) testIssuer 7 = (Return None, 8) \<and>
   validateCRL testLibrary
     (Some (testCRL 5 100 [] [crlExtension oidIssuingDistributionPoint True [9],
                              otherExtension True])) testIssuer 7
     = (Return (Some (UnsupportedCriticalExtension [1, 2, 3])), 8)"
proof -
  let ?a = "testCRL 5 100 [] [crlExtension oidIssuingDistributionPoint True [9],
                        crlExtension oidDeltaCRLIndicator True [9],
                        otherExtension False]"
  let ?b = "testCRL 5 100 [] [crlExtension oidIssuingDistributionPoint True [9],
                        otherExtension True]"
  have a: "validateCRL testLibrary (Some ?a) testIssuer 7 = (Return None, 8)"
    using validateCRL_extension_policy [of testLibrary ?a testIssuer 7 7 8]
    by (simp add: test_defs2)
  have b: "validateCRL testLibrary (Some ?b) testIssuer 7
      = (Return (Some (UnsupportedCriticalExtension [1, 2, 3])), 8)"
    using validateCRL_extension_policy [of testLibrary ?b testIssuer 7 7 8]
    by (simp add: test_defs2)
  from a b show ?thesis by simp
qed

text \<open>
  C7 (as amended). On a CRL whose signature verifies, \<open>validateCRL\<close> fails with
  \<open>NextUpdateNotSet\<close> when \<open>NextUpdate\<close> is the zero instant, and with \<open>ExpiredCRL\<close> when
  \<open>NextUpdate\<close> is set and strictly before the clock reading; when \<open>NextUpdate\<close> is set
  and the clock reading is not after it (equal to it included), the CRL is not expired
  and the result is that of the pass over the extensions. Hence \<open>validateCRL\<close> succeeds
  only if \<open>NextUpdate\<close> is set and not before the clock reading.
\<close>

theorem validateCRL_next_update:
  assumes "CheckSignatureFrom env (Some crl) issuer = None"
    and "Now env w = (now, w')"
  shows "(NextUpdate crl = 0 \<longrightarrow>
            validateCRL env (Some crl) issuer w = (Return (Some NextUpdateNotSet), w)) \<and>
         (NextUpdate crl \<noteq> 0 \<and> NextUpdate crl < now \<longrightarrow>
            validateCRL env (Some crl) issuer w =
              (Return (Some (ExpiredCRL now (NextUpdate crl))), w')) \<and>
         (NextUpdate crl \<noteq> 0 \<and> now \<le> NextUpdate crl \<longrightarrow>
            validateCRL env (Some crl) issuer w =
              (Return (validateCRL_extensions (Extensions_crl crl)), w')) \<and>
         (fst (validateCRL env (Some crl) issuer w) = Return None \<longrightarrow>
            NextUpdate crl \<noteq> 0 \<and> now \<le> NextUpdate crl)"
  using assms by (auto simp: validateCRL_def IsZero_def After_def)

theorem validateCRL_next_update_witness:
  "validateCRL testLibrary (Some (testCRL 5 0 [] [])) testIssuer 7
     = (Return (Some NextUpdateNotSet), 7) \<and>
   validateCRL testLibrary (Some (testCRL 5 6 [] [])) testIssuer 7
     = (Return (Some (ExpiredCRL 7 6)), 8) \<and>
   validateCRL testLibrary (Some (testCRL 5 8 [] [])) testIssuer 7 = (Return None, 8)"
proof -
  have a: "validateCRL testLibrary (Some (testCRL 5 0 [] [])) testIssuer 7
      = (Return (Some NextUpdateNotSet), 7)"
    using validateCRL_next_update [of testLibrary "testCRL 5 0 [] []" testIssuer 7 7 8]
    by (simp add: test_defs2)
  have b: "validateCRL testLibrary (Some (testCRL 5 6 [] [])) testIssuer 7
      = (Return (Some (ExpiredCRL 7 6)), 8)"
    using validateCRL_next_update [of testLibrary "testCRL 5 6 [] []" testIssuer 7 7 8]
    by (simp add: test_defs2)
  have c: "validateCRL testLibrary (Some (testCRL 5 8 [] [])) testIssuer 7 = (Return None, 8)"
    using validateCRL_next_update [of testLibrary "testCRL 5 8 [] []" testIssuer 7 7 8]
    by (simp add: test_defs2)
  from a b c show ?thesis by simp
qed

text \<open>
  A CRL whose \<open>NextUpdate\<close> equals the clock reading is accepted, not treated as expired.
\<close>

theorem validateCRL_next_update_counterexample:
  "CheckSignatureFrom testLibrary (Some (testCRL 5 7 [] [])) testIssuer = None \<and>
   Now testLibrary 7 = (7, 8) \<and>
   NextUpdate (testCRL 5 7 [] []) = 7 \<and>
   validateCRL testLibrary (Some (testCRL 5 7 [] [])) testIssuer 7 = (Return None, 8)"
  by (simp add: validateCRL_def test_defs2)

section \<open>Properties of checkRevocation\<close>

lemmas test_defs3 = test_defs2 testCert_def testBundle_def revocationListIter_def
  reasonCodeCertificateHold_def reasonCodeRemoveFromCRL_def

lemma walk_Some_tracks:
  assumes "\<forall>x\<in>set es. SerialNumber_entry x = SerialNumber_cert c \<longrightarrow>
      (ReasonCode x = reasonCodeCertificateHold \<or> ReasonCode x = reasonCodeRemoveFromCRL) \<and>
      (\<exists>ext. parseEntryExtensions env x = Inr ext \<and>
         \<not> (\<not> IsZero signingTime \<and> \<not> IsZero (invalidityDate ext) \<and>
            Before signingTime (invalidityDate ext)))"
  shows "\<exists>r. walk env c signingTime es (Some l) = Finished (Some r) \<and>
     ((r = l \<and> (\<forall>x\<in>set (filter (\<lambda>x. SerialNumber_entry x = SerialNumber_cert c) es).
                  RevocationTime x \<le> RevocationTime l)) \<or>
      (RevocationTime l < RevocationTime r \<and>
       (\<exists>pre post. filter (\<lambda>x. SerialNumber_entry x = SerialNumber_cert c) es = pre @ r # post \<and>
          (\<forall>x\<in>set pre. RevocationTime x < RevocationTime r) \<and>
          (\<forall>x\<in>set post. RevocationTime x \<le> RevocationTime r))))"
  using assms
proof (induction es arbitrary: l)
  case Nil
  then show ?case by simp
next
  case (Cons e es)
  let ?M = "\<lambda>x. SerialNumber_entry x = SerialNumber_cert c"
  from Cons.prems have rest: "\<forall>x\<in>set es. ?M x \<longrightarrow>
      (ReasonCode x = reasonCodeCertificateHold \<or> ReasonCode x = reasonCodeRemoveFromCRL) \<and>
      (\<exists>ext. parseEntryExtensions env x = Inr ext \<and>
         \<not> (\<not> IsZero signingTime \<and> \<not> IsZero (invalidityDate ext) \<and>
            Before signingTime (invalidityDate ext)))"
    by simp
  show ?case
  proof (cases "?M e")
    case False
    then have "walk env c signingTime (e # es) (Some l) = walk env c signingTime es (Some l)"
      by simp
    moreover from False have "filter ?M (e # es) = filter ?M es" by simp
    ultimately show ?thesis using Cons.IH [OF rest, of l] by simp
  next
    case True
    with Cons.prems obtain ext where
      code: "ReasonCode e = reasonCodeCertificateHold \<or> ReasonCode e = reasonCodeRemoveFromCRL" and
      parse: "parseEntryExtensions env e = Inr ext" and
      nosc: "\<not> (\<not> IsZero signingTime \<and> \<not> IsZero (invalidityDate ext) \<and>
            Before signingTime (invalidityDate ext))"
      by auto
    have f: "filter ?M (e # es) = e # filter ?M es" using True by simp
    show ?thesis
    proof (cases "RevocationTime l < RevocationTime e")
      case later: True
      have step: "walk env c signingTime (e # es) (Some l) = walk env c signingTime es (Some e)"
        using True code parse nosc later by (auto simp: Before_def)
      from Cons.IH [OF rest, of e] obtain r where
        w: "walk env c signingTime es (Some e) = Finished (Some r)" and
        d: "(r = e \<and> (\<forall>x\<in>set (filter ?M es). RevocationTime x \<le> RevocationTime e)) \<or>
            (RevocationTime e < RevocationTime r \<and>
              (\<exists>pre post. filter ?M es = pre @ r # post \<and>
                (\<forall>x\<in>set pre. RevocationTime x < RevocationTime r) \<and>
                (\<forall>x\<in>set post. RevocationTime x \<le> RevocationTime r)))"
        by blast
      from d show ?thesis
      proof
        assume a: "r = e \<and> (\<forall>x\<in>set (filter ?M es). RevocationTime x \<le> RevocationTime e)"
        then have "filter ?M (e # es) = [] @ r # filter ?M es \<and>
            (\<forall>x\<in>set []. RevocationTime x < RevocationTime r) \<and>
            (\<forall>x\<in>set (filter ?M es). RevocationTime x \<le> RevocationTime r)"
          using f by simp
        then have "\<exists>pre post. filter ?M (e # es) = pre @ r # post \<and>
            (\<forall>x\<in>set pre. RevocationTime x < RevocationTime r) \<and>
            (\<forall>x\<in>set post. RevocationTime x \<le> RevocationTime r)"
          by blast
        moreover have "RevocationTime l < RevocationTime r" using a later by simp
        ultimately show ?thesis using step w by simp
      next
        assume a: "RevocationTime e < RevocationTime r \<and>
              (\<exists>pre post. filter ?M es = pre @ r # post \<and>
                (\<forall>x\<in>set pre. RevocationTime x < RevocationTime r) \<and>
                (\<forall>x\<in>set post. RevocationTime x \<le> RevocationTime r))"
        then obtain pre post where p: "filter ?M es = pre @ r # post"
          "\<forall>x\<in>set pre. RevocationTime x < RevocationTime r"
          "\<forall>x\<in>set post. RevocationTime x \<le> RevocationTime r"
          by blast
        have "filter ?M (e # es) = (e # pre) @ r # post \<and>
            (\<forall>x\<in>set (e # pre). RevocationTime x < RevocationTime r) \<and>
            (\<forall>x\<in>set post. RevocationTime x \<le> RevocationTime r)"
          using f p a by simp
        then have "\<exists>pre post. filter ?M (e # es) = pre @ r # post \<and>
            (\<forall>x\<in>set pre. RevocationTime x < RevocationTime r) \<and>
            (\<forall>x\<in>set post. RevocationTime x \<le> RevocationTime r)"
          by blast
        moreover have "RevocationTime l < RevocationTime r" using a later by simp
        ultimately show ?thesis using step w by simp
      qed
    next
      case notlater: False
      have step: "walk env c signingTime (e # es) (Some l) = walk env c signingTime es (Some l)"
        using True code parse nosc notlater by (auto simp: Before_def)
      from Cons.IH [OF rest, of l] obtain r where
        w: "walk env c signingTime es (Some l) = Finished (Some r)" and
        d: "(r = l \<and> (\<forall>x\<in>set (filter ?M es). RevocationTime x \<le> RevocationTime l)) \<or>
            (RevocationTime l < RevocationTime r \<and>
              (\<exists>pre post. filter ?M es = pre @ r # post \<and>
                (\<forall>x\<in>set pre. RevocationTime x < RevocationTime r) \<and>
                (\<forall>x\<in>set post. RevocationTime x \<le> RevocationTime r)))"
        by blast
      from d show ?thesis
      proof
        assume a: "r = l \<and> (\<forall>x\<in>set (filter ?M es). RevocationTime x \<le> RevocationTime l)"
        then have "\<forall>x\<in>set (filter ?M (e # es)). RevocationTime x \<le> RevocationTime l"
          using f notlater by simp
        then show ?thesis using step w a by simp
      next
        assume a: "RevocationTime l < RevocationTime r \<and>
              (\<exists>pre post. filter ?M es = pre @ r # post \<and>
                (\<forall>x\<in>set pre. RevocationTime x < RevocationTime r) \<and>
                (\<forall>x\<in>set post. RevocationTime x \<le> RevocationTime r))"
        then obtain pre post where p: "filter ?M es = pre @ r # post"
          "\<forall>x\<in>set pre. RevocationTime x < RevocationTime r"
          "\<forall>x\<in>set post. RevocationTime x \<le> RevocationTime r"
          by blast
        have "RevocationTime e < RevocationTime r" using a notlater by simp
        then have "filter ?M (e # es) = (e # pre) @ r # post \<and>
            (\<forall>x\<in>set (e # pre). RevocationTime x < RevocationTime r) \<and>
            (\<forall>x\<in>set post. RevocationTime x \<le> RevocationTime r)"
          using f p by simp
        then have "\<exists>pre post. filter ?M (e # es) = pre @ r # post \<and>
            (\<forall>x\<in>set pre. RevocationTime x < RevocationTime r) \<and>
            (\<forall>x\<in>set post. RevocationTime x \<le> RevocationTime r)"
          by blast
        then show ?thesis using step w a by simp
      qed
    qed
  qed
qed

lemma walk_None_tracks:
  assumes "\<forall>x\<in>set es. SerialNumber_entry x = SerialNumber_cert c \<longrightarrow>
      (ReasonCode x = reasonCodeCertificateHold \<or> ReasonCode x = reasonCodeRemoveFromCRL) \<and>
      (\<exists>ext. parseEntryExtensions env x = Inr ext \<and>
         \<not> (\<not> IsZero signingTime \<and> \<not> IsZero (invalidityDate ext) \<and>
            Before signingTime (invalidityDate ext)))"
  shows "(filter (\<lambda>x. SerialNumber_entry x = SerialNumber_cert c) es = [] \<and>
          walk env c signingTime es None = Finished None) \<or>
     (\<exists>pre t post. filter (\<lambda>x. SerialNumber_entry x = SerialNumber_cert c) es = pre @ t # post \<and>
          (\<forall>x\<in>set pre. RevocationTime x < RevocationTime t) \<and>
          (\<forall>x\<in>set post. RevocationTime x \<le> RevocationTime t) \<and>
          walk env c signingTime es None = Finished (Some t))"
  using assms
proof (induction es)
  case Nil
  then show ?case by simp
next
  case (Cons e es)
  let ?M = "\<lambda>x. SerialNumber_entry x = SerialNumber_cert c"
  from Cons.prems have rest: "\<forall>x\<in>set es. ?M x \<longrightarrow>
      (ReasonCode x = reasonCodeCertificateHold \<or> ReasonCode x = reasonCodeRemoveFromCRL) \<and>
      (\<exists>ext. parseEntryExtensions env x = Inr ext \<and>
         \<not> (\<not> IsZero signingTime \<and> \<not> IsZero (invalidityDate ext) \<and>
            Before signingTime (invalidityDate ext)))"
    by simp
  show ?case
  proof (cases "?M e")
    case False
    then have "walk env c signingTime (e # es) None = walk env c signingTime es None"
      by simp
    moreover from False have "filter ?M (e # es) = filter ?M es" by simp
    ultimately show ?thesis using Cons.IH [OF rest] by simp
  next
    case True
    with Cons.prems obtain ext where
      code: "ReasonCode e = reasonCodeCertificateHold \<or> ReasonCode e = reasonCodeRemoveFromCRL" and
      parse: "parseEntryExtensions env e = Inr ext" and
      nosc: "\<not> (\<not> IsZero signingTime \<and> \<not> IsZero (invalidityDate ext) \<and>
            Before signingTime (invalidityDate ext))"
      by auto
    have f: "filter ?M (e # es) = e # filter ?M es" using True by simp
    have step: "walk env c signingTime (e # es) None = walk env c signingTime es (Some e)"
      using True code parse nosc by auto
    from walk_Some_tracks [OF rest, of e] obtain r where
      w: "walk env c signingTime es (Some e) = Finished (Some r)" and
      d: "(r = e \<and> (\<forall>x\<in>set (filter ?M es). RevocationTime x \<le> RevocationTime e)) \<or>
          (RevocationTime e < RevocationTime r \<and>
            (\<exists>pre post. filter ?M es = pre @ r # post \<and>
              (\<forall>x\<in>set pre. RevocationTime x < RevocationTime r) \<and>
              (\<forall>x\<in>set post. RevocationTime x \<le> RevocationTime r)))"
      by blast
    from d have "\<exists>pre post. filter ?M (e # es) = pre @ r # post \<and>
            (\<forall>x\<in>set pre. RevocationTime x < RevocationTime r) \<and>
            (\<forall>x\<in>set post. RevocationTime x \<le> RevocationTime r)"
    proof
      assume a: "r = e \<and> (\<forall>x\<in>set (filter ?M es). RevocationTime x \<le> RevocationTime e)"
      then have "filter ?M (e # es) = [] @ r # filter ?M es \<and>
            (\<forall>x\<in>set []. RevocationTime x < RevocationTime r) \<and>
            (\<forall>x\<in>set (filter ?M es). RevocationTime x \<le> RevocationTime r)"
        using f by simp
      then show ?thesis by blast
    next
      assume a: "RevocationTime e < RevocationTime r \<and>
            (\<exists>pre post. filter ?M es = pre @ r # post \<and>
              (\<forall>x\<in>set pre. RevocationTime x < RevocationTime r) \<and>
              (\<forall>x\<in>set post. RevocationTime x \<le> RevocationTime r))"
      then obtain pre post where p: "filter ?M es = pre @ r # post"
          "\<forall>x\<in>set pre. RevocationTime x < RevocationTime r"
          "\<forall>x\<in>set post. RevocationTime x \<le> RevocationTime r"
        by blast
      have "filter ?M (e # es) = (e # pre) @ r # post \<and>
            (\<forall>x\<in>set (e # pre). RevocationTime x < RevocationTime r) \<and>
            (\<forall>x\<in>set post. RevocationTime x \<le> RevocationTime r)"
        using f p a by simp
      then show ?thesis by blast
    qed
    then show ?thesis using step w by auto
  qed
qed

lemma walk_passes_prefix:
  assumes "\<forall>x\<in>set pre. SerialNumber_entry x = SerialNumber_cert c \<longrightarrow>
      (ReasonCode x = reasonCodeCertificateHold \<or> ReasonCode x = reasonCodeRemoveFromCRL) \<and>
      (\<exists>ext. parseEntryExtensions env x = Inr ext \<and>
         \<not> (\<not> IsZero signingTime \<and> \<not> IsZero (invalidityDate ext) \<and>
            Before signingTime (invalidityDate ext)))"
  shows "\<exists>latest'. walk env c signingTime (pre @ rest) latest = walk env c signingTime rest latest'"
  using assms
proof (induction pre arbitrary: latest)
  case Nil
  then show ?case by auto
next
  case (Cons e pre)
  from Cons.prems have rest: "\<forall>x\<in>set pre. SerialNumber_entry x = SerialNumber_cert c \<longrightarrow>
      (ReasonCode x = reasonCodeCertificateHold \<or> ReasonCode x = reasonCodeRemoveFromCRL) \<and>
      (\<exists>ext. parseEntryExtensions env x = Inr ext \<and>
         \<not> (\<not> IsZero signingTime \<and> \<not> IsZero (invalidityDate ext) \<and>
            Before signingTime (invalidityDate ext)))"
    by simp
  show ?case
  proof (cases "SerialNumber_entry e = SerialNumber_cert c")
    case False
    then show ?thesis using Cons.IH [OF rest, of latest] by simp
  next
    case True
    with Cons.prems obtain ext where
      code: "ReasonCode e = reasonCodeCertificateHold \<or> ReasonCode e = reasonCodeRemoveFromCRL" and
      parse: "parseEntryExtensions env e = Inr ext" and
      nosc: "\<not> (\<not> IsZero signingTime \<and> \<not> IsZero (invalidityDate ext) \<and>
            Before signingTime (invalidityDate ext))"
      by auto
    have "\<exists>l. walk env c signingTime ((e # pre) @ rest) latest =
        walk env c signingTime (pre @ rest) l"
      using True code parse nosc by auto
    then obtain l where "walk env c signingTime ((e # pre) @ rest) latest =
        walk env c signingTime (pre @ rest) l" by blast
    with Cons.IH [OF rest, of l] show ?thesis by auto
  qed
qed


text \<open>
  C1 (as amended). Let the signing time be set, and let \<open>e\<close> be an entry of the merged sequence (the
  base entries, then the delta entries) with the serial number of the certificate,
  whose extensions \<open>parseEntryExtensions\<close> parses without error, to a non-zero invalidity
  date \<open>d\<close> with the signing time strictly before \<open>d\<close>. Let \<open>e\<close> be the first such entry the walk reaches: every
  entry before it with that serial number parses, carries no (a zero) invalidity date
  and has reason certificateHold or removeFromCRL, so the walk goes on past it. Then
  \<open>checkRevocation\<close> returns the result OK for the URL, whatever the reason code of \<open>e\<close>
  is and whatever entries follow \<open>e\<close>.
\<close>

theorem checkRevocation_invalidity_date_ok:
  assumes "signingTime \<noteq> 0"
    and "BaseCRL bundle = Some base"
    and "revocationListIter base (DeltaCRL bundle) = pre @ e # post"
    and "\<forall>x\<in>set pre. SerialNumber_entry x = SerialNumber_cert c \<longrightarrow>
           parseEntryExtensions env x = Inr \<lparr>invalidityDate = 0\<rparr> \<and>
           (ReasonCode x = reasonCodeCertificateHold \<or> ReasonCode x = reasonCodeRemoveFromCRL)"
    and "SerialNumber_entry e = SerialNumber_cert c"
    and "parseEntryExtensions env e = Inr \<lparr>invalidityDate = d\<rparr>"
    and "d \<noteq> 0"
    and "signingTime < d"
  shows "checkRevocation env (Some c) (Some bundle) signingTime url =
           Inr \<lparr>Result = ResultOK, Server = url, Error = None,
                RevocationMethod = RevocationMethodCRL\<rparr>"
proof -
  have "\<forall>x\<in>set pre. SerialNumber_entry x = SerialNumber_cert c \<longrightarrow>
      (ReasonCode x = reasonCodeCertificateHold \<or> ReasonCode x = reasonCodeRemoveFromCRL) \<and>
      (\<exists>ext. parseEntryExtensions env x = Inr ext \<and>
         \<not> (\<not> IsZero signingTime \<and> \<not> IsZero (invalidityDate ext) \<and>
            Before signingTime (invalidityDate ext)))"
    using assms(4) by (auto simp: IsZero_def)
  from walk_passes_prefix [OF this, of "e # post" None] obtain l where
    "walk env c signingTime (pre @ e # post) None = walk env c signingTime (e # post) l"
    by blast
  moreover have "walk env c signingTime (e # post) l = Stop ResultOK"
    using assms(1,5,6,7,8) by (simp add: IsZero_def Before_def)
  ultimately have "walk env c signingTime (revocationListIter base (DeltaCRL bundle)) None
      = Stop ResultOK"
    using assms(3) by simp
  then show ?thesis
    using assms(2) by (simp add: checkRevocation_def crlServerResult_def)
qed

theorem checkRevocation_invalidity_date_ok_witness:
  "checkRevocation testLibrary (Some (testCert 42 [] []))
     (Some (testBundle
        (testCRL 5 100
           [testEntry 7 3 1 [otherExtension True],
            testEntry 42 3 6 [otherExtension False],
            testEntry 42 4 1 [invalidityDateExtension [20]]] [])
        (Some (testCRL 6 100 [testEntry 42 5 1 [otherExtension True]] []))))
     10 ''http://crl.example/a''
   = Inr \<lparr>Result = ResultOK, Server = ''http://crl.example/a'', Error = None,
          RevocationMethod = RevocationMethodCRL\<rparr>"
  by (rule checkRevocation_invalidity_date_ok
    [of 10
        "testBundle
          (testCRL 5 100
             [testEntry 7 3 1 [otherExtension True],
              testEntry 42 3 6 [otherExtension False],
              testEntry 42 4 1 [invalidityDateExtension [20]]] [])
          (Some (testCRL 6 100 [testEntry 42 5 1 [otherExtension True]] []))"
        "testCRL 5 100
             [testEntry 7 3 1 [otherExtension True],
              testEntry 42 3 6 [otherExtension False],
              testEntry 42 4 1 [invalidityDateExtension [20]]] []"
        "[testEntry 7 3 1 [otherExtension True], testEntry 42 3 6 [otherExtension False]]"
        "testEntry 42 4 1 [invalidityDateExtension [20]]"
        "[testEntry 42 5 1 [otherExtension True]]"
        "testCert 42 [] []" testLibrary 20 "''http://crl.example/a''"])
    (simp_all add: test_defs3 parseEntryExtensions_def)


text \<open>
  Without the condition that the entry parses the statement fails: a matching entry
  with an invalidity date after the signing time and a critical extension of an unknown
  kind makes \<open>checkRevocation\<close> return the error of \<open>parseEntryExtensions\<close>, not OK.
\<close>

theorem checkRevocation_invalidity_date_ok_counterexample:
  "revocationListIter
     (testCRL 5 100 [testEntry 42 3 1 [invalidityDateExtension [20], otherExtension True]] []) None
     = [testEntry 42 3 1 [invalidityDateExtension [20], otherExtension True]] \<and>
   SerialNumber_entry (testEntry 42 3 1 [invalidityDateExtension [20], otherExtension True])
     = SerialNumber_cert (testCert 42 [] []) \<and>
   Extensions_entry (testEntry 42 3 1 [invalidityDateExtension [20], otherExtension True])
     = [invalidityDateExtension [20], otherExtension True] \<and>
   Id_ext (invalidityDateExtension [20]) = oidInvalidityDate \<and>
   UnmarshalGeneralizedTime testLibrary (Value (invalidityDateExtension [20])) = Inr (20, []) \<and>
   (10 :: Time) \<noteq> 0 \<and> (10 :: Time) < 20 \<and>
   checkRevocation testLibrary (Some (testCert 42 [] []))
     (Some (testBundle
        (testCRL 5 100 [testEntry 42 3 1 [invalidityDateExtension [20], otherExtension True]] [])
        None))
     10 ''http://crl.example/a''
   = Inl (UnsupportedCriticalExtension [1, 2, 3])"
  by (simp add: test_defs3 parseEntryExtensions_def checkRevocation_def)

text \<open>
  C2 (as amended). Let every entry of the merged sequence with the serial number of
  the certificate have reason certificateHold or removeFromCRL, parse without error,
  and not trigger the invalidity-date test. Then the walk runs to its end. If there is
  no such entry, it ends tracking nothing and the result is OK. Otherwise it ends
  tracking the entry \<open>t\<close> with the latest revocation time among them, the first in merge
  order of those that share it (every such entry before \<open>t\<close> is strictly earlier, none
  after \<open>t\<close> is later), and the result is Revoked if the reason of \<open>t\<close> is certificateHold
  and OK otherwise.
\<close>

theorem checkRevocation_hold_or_remove:
  assumes "BaseCRL bundle = Some base"
    and "\<forall>x\<in>set (revocationListIter base (DeltaCRL bundle)).
           SerialNumber_entry x = SerialNumber_cert c \<longrightarrow>
           (ReasonCode x = reasonCodeCertificateHold \<or> ReasonCode x = reasonCodeRemoveFromCRL) \<and>
           (\<exists>ext. parseEntryExtensions env x = Inr ext \<and>
              \<not> (\<not> IsZero signingTime \<and> \<not> IsZero (invalidityDate ext) \<and>
                 Before signingTime (invalidityDate ext)))"
  shows "(filter (\<lambda>x. SerialNumber_entry x = SerialNumber_cert c)
            (revocationListIter base (DeltaCRL bundle)) = [] \<and>
          walk env c signingTime (revocationListIter base (DeltaCRL bundle)) None = Finished None \<and>
          checkRevocation env (Some c) (Some bundle) signingTime url =
            Inr \<lparr>Result = ResultOK, Server = url, Error = None,
                 RevocationMethod = RevocationMethodCRL\<rparr>) \<or>
         (\<exists>pre t post.
            filter (\<lambda>x. SerialNumber_entry x = SerialNumber_cert c)
              (revocationListIter base (DeltaCRL bundle)) = pre @ t # post \<and>
            (\<forall>x\<in>set pre. RevocationTime x < RevocationTime t) \<and>
            (\<forall>x\<in>set post. RevocationTime x \<le> RevocationTime t) \<and>
            walk env c signingTime (revocationListIter base (DeltaCRL bundle)) None
              = Finished (Some t) \<and>
            checkRevocation env (Some c) (Some bundle) signingTime url =
              Inr \<lparr>Result = (if ReasonCode t = reasonCodeCertificateHold
                              then ResultRevoked else ResultOK),
                   Server = url, Error = None, RevocationMethod = RevocationMethodCRL\<rparr>)"
proof -
  let ?es = "revocationListIter base (DeltaCRL bundle)"
  let ?M = "\<lambda>x. SerialNumber_entry x = SerialNumber_cert c"
  from walk_None_tracks [OF assms(2)]
  consider (none) "filter ?M ?es = []" "walk env c signingTime ?es None = Finished None"
    | (some) pre t post where "filter ?M ?es = pre @ t # post"
        "\<forall>x\<in>set pre. RevocationTime x < RevocationTime t"
        "\<forall>x\<in>set post. RevocationTime x \<le> RevocationTime t"
        "walk env c signingTime ?es None = Finished (Some t)"
    by blast
  then show ?thesis
  proof cases
    case none
    then have "checkRevocation env (Some c) (Some bundle) signingTime url =
            Inr \<lparr>Result = ResultOK, Server = url, Error = None,
                 RevocationMethod = RevocationMethodCRL\<rparr>"
      using assms(1) by (simp add: checkRevocation_def crlServerResult_def)
    with none show ?thesis by blast
  next
    case some
    then have "checkRevocation env (Some c) (Some bundle) signingTime url =
              Inr \<lparr>Result = (if ReasonCode t = reasonCodeCertificateHold
                              then ResultRevoked else ResultOK),
                   Server = url, Error = None, RevocationMethod = RevocationMethodCRL\<rparr>"
      using assms(1) by (simp add: checkRevocation_def crlServerResult_def)
    with some show ?thesis by blast
  qed
qed



theorem checkRevocation_hold_or_remove_witness:
  "checkRevocation testLibrary (Some (testCert 42 [] []))
     (Some (testBundle (testCRL 5 100 [testEntry 42 5 6 []] []) None))
     10 ''http://crl.example/a''
   = Inr \<lparr>Result = ResultRevoked, Server = ''http://crl.example/a'', Error = None,
          RevocationMethod = RevocationMethodCRL\<rparr> \<and>
   checkRevocation testLibrary (Some (testCert 42 [] []))
     (Some (testBundle (testCRL 5 100 [testEntry 42 5 6 []] [])
        (Some (testCRL 6 100 [testEntry 42 9 8 []] []))))
     10 ''http://crl.example/a''
   = Inr \<lparr>Result = ResultOK, Server = ''http://crl.example/a'', Error = None,
          RevocationMethod = RevocationMethodCRL\<rparr> \<and>
   walk testLibrary (testCert 42 [] []) 10 [testEntry 42 5 6 [], testEntry 42 9 8 []] None
   = Finished (Some (testEntry 42 9 8 []))"
proof -
  let ?c = "testCert 42 [] []"
  let ?base = "testCRL 5 100 [testEntry 42 5 6 []] []"
  let ?b1 = "testBundle ?base None"
  let ?b2 = "testBundle ?base (Some (testCRL 6 100 [testEntry 42 9 8 []] []))"
  have base1: "BaseCRL ?b1 = Some ?base" and base2: "BaseCRL ?b2 = Some ?base"
    by (simp_all add: testBundle_def)
  have temp1: "\<forall>x\<in>set (revocationListIter ?base (DeltaCRL ?b1)).
           SerialNumber_entry x = SerialNumber_cert ?c \<longrightarrow>
           (ReasonCode x = reasonCodeCertificateHold \<or> ReasonCode x = reasonCodeRemoveFromCRL) \<and>
           (\<exists>ext. parseEntryExtensions testLibrary x = Inr ext \<and>
              \<not> (\<not> IsZero 10 \<and> \<not> IsZero (invalidityDate ext) \<and>
                 Before 10 (invalidityDate ext)))"
    by (simp add: test_defs3 parseEntryExtensions_def)
  have temp2: "\<forall>x\<in>set (revocationListIter ?base (DeltaCRL ?b2)).
           SerialNumber_entry x = SerialNumber_cert ?c \<longrightarrow>
           (ReasonCode x = reasonCodeCertificateHold \<or> ReasonCode x = reasonCodeRemoveFromCRL) \<and>
           (\<exists>ext. parseEntryExtensions testLibrary x = Inr ext \<and>
              \<not> (\<not> IsZero 10 \<and> \<not> IsZero (invalidityDate ext) \<and>
                 Before 10 (invalidityDate ext)))"
    by (simp add: test_defs3 parseEntryExtensions_def)
  have w: "walk testLibrary ?c 10 [testEntry 42 5 6 [], testEntry 42 9 8 []] None
      = Finished (Some (testEntry 42 9 8 []))"
    by (simp add: test_defs3 parseEntryExtensions_def)
  have it1: "revocationListIter ?base (DeltaCRL ?b1) = [testEntry 42 5 6 []]"
    and it2: "revocationListIter ?base (DeltaCRL ?b2) = [testEntry 42 5 6 [], testEntry 42 9 8 []]"
    by (simp_all add: test_defs3)
  have w1: "walk testLibrary ?c 10 [testEntry 42 5 6 []] None
      = Finished (Some (testEntry 42 5 6 []))"
    by (simp add: test_defs3 parseEntryExtensions_def)
  have r1: "checkRevocation testLibrary (Some ?c) (Some ?b1) 10 ''http://crl.example/a''
      = Inr \<lparr>Result = ResultRevoked, Server = ''http://crl.example/a'', Error = None,
          RevocationMethod = RevocationMethodCRL\<rparr>"
    using checkRevocation_hold_or_remove [OF base1 temp1, of "''http://crl.example/a''"]
    unfolding it1 w1 by (auto simp: testEntry_def reasonCodeCertificateHold_def)
  have r2: "checkRevocation testLibrary (Some ?c) (Some ?b2) 10 ''http://crl.example/a''
      = Inr \<lparr>Result = ResultOK, Server = ''http://crl.example/a'', Error = None,
          RevocationMethod = RevocationMethodCRL\<rparr>"
    using checkRevocation_hold_or_remove [OF base2 temp2, of "''http://crl.example/a''"]
    unfolding it2 w by (auto simp: testEntry_def reasonCodeCertificateHold_def)
  from r1 r2 w show ?thesis by simp
qed

text \<open>
  Without the condition that the entries parse the statement fails: when the only
  matching entry is a certificateHold with a critical extension of an unknown kind,
  \<open>checkRevocation\<close> returns the error of \<open>parseEntryExtensions\<close>, neither Revoked nor OK.
\<close>

theorem checkRevocation_hold_or_remove_counterexample:
  "revocationListIter (testCRL 5 100 [testEntry 42 3 6 [otherExtension True]] []) None
     = [testEntry 42 3 6 [otherExtension True]] \<and>
   SerialNumber_entry (testEntry 42 3 6 [otherExtension True]) = SerialNumber_cert (testCert 42 [] []) \<and>
   ReasonCode (testEntry 42 3 6 [otherExtension True]) = reasonCodeCertificateHold \<and>
   Extensions_entry (testEntry 42 3 6 [otherExtension True]) = [otherExtension True] \<and>
   Id_ext (otherExtension True) \<noteq> oidInvalidityDate \<and>
   checkRevocation testLibrary (Some (testCert 42 [] []))
     (Some (testBundle (testCRL 5 100 [testEntry 42 3 6 [otherExtension True]] []) None))
     10 ''http://crl.example/a''
   = Inl (UnsupportedCriticalExtension [1, 2, 3])"
  by (simp add: test_defs3 parseEntryExtensions_def checkRevocation_def)


text \<open>
  C3 (as amended). Let \<open>e\<close> be an entry of the merged sequence with the serial number of
  the certificate whose reason code is neither certificateHold nor removeFromCRL, which
  parses without error and does not trigger the invalidity-date test, and which the walk
  reaches: every entry before it with that serial number has reason certificateHold or
  removeFromCRL, parses and does not trigger the test. Then \<open>checkRevocation\<close> returns
  the result Revoked for the URL, whatever entries follow \<open>e\<close>.
\<close>

theorem checkRevocation_permanent_reason:
  assumes "BaseCRL bundle = Some base"
    and "revocationListIter base (DeltaCRL bundle) = pre @ e # post"
    and "\<forall>x\<in>set pre. SerialNumber_entry x = SerialNumber_cert c \<longrightarrow>
           (ReasonCode x = reasonCodeCertificateHold \<or> ReasonCode x = reasonCodeRemoveFromCRL) \<and>
           (\<exists>ext. parseEntryExtensions env x = Inr ext \<and>
              \<not> (\<not> IsZero signingTime \<and> \<not> IsZero (invalidityDate ext) \<and>
                 Before signingTime (invalidityDate ext)))"
    and "SerialNumber_entry e = SerialNumber_cert c"
    and "ReasonCode e \<noteq> reasonCodeCertificateHold"
    and "ReasonCode e \<noteq> reasonCodeRemoveFromCRL"
    and "parseEntryExtensions env e = Inr ext"
    and "\<not> (\<not> IsZero signingTime \<and> \<not> IsZero (invalidityDate ext) \<and>
            Before signingTime (invalidityDate ext))"
  shows "checkRevocation env (Some c) (Some bundle) signingTime url =
           Inr \<lparr>Result = ResultRevoked, Server = url, Error = None,
                RevocationMethod = RevocationMethodCRL\<rparr>"
proof -
  from walk_passes_prefix [OF assms(3), of "e # post" None] obtain l where
    "walk env c signingTime (pre @ e # post) None = walk env c signingTime (e # post) l"
    by blast
  moreover have "walk env c signingTime (e # post) l = Stop ResultRevoked"
    using assms(4,5,6,7,8) by simp
  ultimately have "walk env c signingTime (revocationListIter base (DeltaCRL bundle)) None
      = Stop ResultRevoked"
    using assms(2) by simp
  then show ?thesis
    using assms(1) by (simp add: checkRevocation_def crlServerResult_def)
qed

theorem checkRevocation_permanent_reason_witness:
  "checkRevocation testLibrary (Some (testCert 42 [] []))
     (Some (testBundle
        (testCRL 5 100
           [testEntry 7 3 1 [otherExtension True],
            testEntry 42 3 6 [invalidityDateExtension [8]]] [])
        (Some (testCRL 6 100
           [testEntry 42 4 0 [otherExtension False],
            testEntry 42 5 8 [otherExtension True]] []))))
     10 ''http://crl.example/a''
   = Inr \<lparr>Result = ResultRevoked, Server = ''http://crl.example/a'', Error = None,
          RevocationMethod = RevocationMethodCRL\<rparr>"
  by (rule checkRevocation_permanent_reason
    [of "testBundle
          (testCRL 5 100
             [testEntry 7 3 1 [otherExtension True],
              testEntry 42 3 6 [invalidityDateExtension [8]]] [])
          (Some (testCRL 6 100
             [testEntry 42 4 0 [otherExtension False],
              testEntry 42 5 8 [otherExtension True]] []))"
        "testCRL 5 100
             [testEntry 7 3 1 [otherExtension True],
              testEntry 42 3 6 [invalidityDateExtension [8]]] []"
        "[testEntry 7 3 1 [otherExtension True], testEntry 42 3 6 [invalidityDateExtension [8]]]"
        "testEntry 42 4 0 [otherExtension False]"
        "[testEntry 42 5 8 [otherExtension True]]"
        "testCert 42 [] []" testLibrary 10 "\<lparr>invalidityDate = 0\<rparr>" "''http://crl.example/a''"])
    (simp_all add: test_defs3 parseEntryExtensions_def)

text \<open>
  Without the condition that the entry parses the statement fails: a matching entry
  with reason keyCompromise (1), no invalidity date and a critical extension of an
  unknown kind makes \<open>checkRevocation\<close> return the error of \<open>parseEntryExtensions\<close>,
  not Revoked.
\<close>

theorem checkRevocation_permanent_reason_counterexample:
  "revocationListIter (testCRL 5 100 [testEntry 42 3 1 [otherExtension True]] []) None
     = [testEntry 42 3 1 [otherExtension True]] \<and>
   SerialNumber_entry (testEntry 42 3 1 [otherExtension True]) = SerialNumber_cert (testCert 42 [] []) \<and>
   ReasonCode (testEntry 42 3 1 [otherExtension True]) = 1 \<and>
   Extensions_entry (testEntry 42 3 1 [otherExtension True]) = [otherExtension True] \<and>
   Id_ext (otherExtension True) \<noteq> oidInvalidityDate \<and>
   checkRevocation testLibrary (Some (testCert 42 [] []))
     (Some (testBundle (testCRL 5 100 [testEntry 42 3 1 [otherExtension True]] []) None))
     10 ''http://crl.example/a''
   = Inl (UnsupportedCriticalExtension [1, 2, 3])"
  by (simp add: test_defs3 parseEntryExtensions_def checkRevocation_def)


section \<open>Properties of validate\<close>

text \<open>
  What \<open>validate\<close> does on a bundle with a delta CRL when both lists pass \<open>validateCRL\<close>
  and both carry a number: it succeeds exactly when the number of the delta is greater
  than that of the base, the delta carries a delta CRL indicator whose value decodes as
  an integer, and that integer is at most the number of the base. The first condition
  that fails, in this order, decides the error: \<open>DeltaCRLNumberNotGreater\<close>,
  \<open>DeltaCRLIndicatorNotFound\<close>, \<open>FailedToParseDeltaCRLIndicator\<close> or
  \<open>DeltaCRLIndicatorTooLarge\<close>, four different errors.
\<close>

lemma validate_delta_with_numbers:
  assumes "BaseCRL bundle = Some base"
    and "DeltaCRL bundle = Some delta"
    and "Number base = Some nb"
    and "Number delta = Some nd"
    and "validateCRL env (Some base) issuer w = (Return None, w1)"
    and "validateCRL env (Some delta) issuer w1 = (Return None, w2)"
  shows "(fst (validate env bundle issuer w) = Return None \<longleftrightarrow>
            nd > nb \<and>
            (\<exists>ext m. FindExtensionByOID (Extensions_crl delta) oidDeltaCRLIndicator = Some ext \<and>
               ReadASN1Integer env (Value ext) = Some m \<and> m \<le> nb)) \<and>
         (\<not> nd > nb \<longrightarrow>
            validate env bundle issuer w =
              (Return (Some (DeltaCRLNumberNotGreater (Some nd) (Some nb))), w2)) \<and>
         (nd > nb \<and>
          FindExtensionByOID (Extensions_crl delta) oidDeltaCRLIndicator = None \<longrightarrow>
            validate env bundle issuer w = (Return (Some DeltaCRLIndicatorNotFound), w2)) \<and>
         (\<forall>ext. nd > nb \<and>
            FindExtensionByOID (Extensions_crl delta) oidDeltaCRLIndicator = Some ext \<and>
            ReadASN1Integer env (Value ext) = None \<longrightarrow>
            validate env bundle issuer w = (Return (Some FailedToParseDeltaCRLIndicator), w2)) \<and>
         (\<forall>ext m. nd > nb \<and>
            FindExtensionByOID (Extensions_crl delta) oidDeltaCRLIndicator = Some ext \<and>
            ReadASN1Integer env (Value ext) = Some m \<and> m > nb \<longrightarrow>
            validate env bundle issuer w =
              (Return (Some (DeltaCRLIndicatorTooLarge m (Some nb))), w2)) \<and>
         (\<forall>ext m. nd > nb \<and>
            FindExtensionByOID (Extensions_crl delta) oidDeltaCRLIndicator = Some ext \<and>
            ReadASN1Integer env (Value ext) = Some m \<and> m \<le> nb \<longrightarrow>
            validate env bundle issuer w = (Return None, w2))"
  using assms by (auto simp: validate_def Cmp_def split: option.splits)

text \<open>
  When the delta CRL has no number and the base CRL has one, and the comparison of a
  nil number with a number panics, \<open>validate\<close> panics after both lists have passed
  \<open>validateCRL\<close>.
\<close>

lemma validate_delta_without_number:
  assumes "BaseCRL bundle = Some base"
    and "DeltaCRL bundle = Some delta"
    and "Number delta = None"
    and "CmpNil env None (Number base) = Panic"
    and "validateCRL env (Some base) issuer w = (Return None, w1)"
    and "validateCRL env (Some delta) issuer w1 = (Return None, w2)"
  shows "validate env bundle issuer w = (Panic, w2)"
  using assms by (simp add: validate_def Cmp_def)

text \<open>
  C4. On a bundle with a delta CRL whose lists both pass the per-CRL validation,
  \<open>validate\<close> is to succeed exactly when the three conditions on the numbers and the
  delta CRL indicator hold, and to return a descriptive error for each violation. It
  does so when both lists carry a number (lemma \<open>validate_delta_with_numbers\<close>), and it
  does not on a delta CRL without a CRL number extension: \<open>validateCRL\<close> never reads
  \<open>Number\<close>, so both lists below pass it, and then \<open>deltaCRL.Number.Cmp(baseCRL.Number)\<close>
  is called on a nil pointer and \<open>validate\<close> panics instead of returning an error.
\<close>

theorem validate_delta_without_number_panics:
  "validateCRL testLibrary (Some (testCRL 5 100 [] [])) testIssuer 7 = (Return None, 8) \<and>
   validateCRL testLibrary
     (Some ((testCRL 6 100 [] [crlExtension oidDeltaCRLIndicator True [5]])\<lparr>Number := None\<rparr>))
     testIssuer 8 = (Return None, 9) \<and>
   validate testLibrary
     (testBundle (testCRL 5 100 [] [])
        (Some ((testCRL 6 100 [] [crlExtension oidDeltaCRLIndicator True [5]])\<lparr>Number := None\<rparr>)))
     testIssuer 7 = (Panic, 9)"
  by (simp add: validate_def validateCRL_def test_defs3)

section \<open>Properties of CertCheckStatus\<close>

lemmas test_defs4 = test_defs3 testFetcher_def testOptions_def FindExtensionByOID_def
  validate_def validateCRL_def checkRevocation_def crlServerResult_def parseEntryExtensions_def

lemma earlier_urls_ok_Cons:
  assumes "earlier_urls_ok env c issuer fetch st hf (u # pre) w = Some (rs, w')"
  obtains b w1 w2 r rs' where
    "fetch u w = (Inr b, w1)"
    "\<not> (hf \<and> DeltaCRL b = None)"
    "validate env b issuer w1 = (Return None, w2)"
    "checkRevocation env (Some c) (Some b) st u = Inr r"
    "Result r \<noteq> ResultRevoked"
    "earlier_urls_ok env c issuer fetch st hf pre w2 = Some (rs', w')"
    "rs = r # rs'"
  using assms
  by (auto split: prod.splits sum.splits if_splits option.splits outcome.splits)

lemma CertCheckStatus_loop_prefix:
  assumes "earlier_urls_ok env c issuer fetch st hf pre w = Some (rs, w')"
  shows "\<exists>vars'. CertCheckStatus_loop env c issuer fetch st hf (pre @ rest) vars w fetched =
            CertCheckStatus_loop env c issuer fetch st hf rest vars' w' (fetched @ pre) \<and>
            lastErr vars' = lastErr vars \<and>
            serverResults vars' = serverResults vars @ rs"
  using assms
proof (induction pre arbitrary: vars w fetched rs)
  case Nil
  then show ?case by auto
next
  case (Cons u pre)
  from Cons.prems obtain b w1 w2 r rs' where
    f: "fetch u w = (Inr b, w1)" and
    nf: "\<not> (hf \<and> DeltaCRL b = None)" and
    v: "validate env b issuer w1 = (Return None, w2)" and
    cr: "checkRevocation env (Some c) (Some b) st u = Inr r" and
    nr: "Result r \<noteq> ResultRevoked" and
    rest: "earlier_urls_ok env c issuer fetch st hf pre w2 = Some (rs', w')" and
    rs: "rs = r # rs'"
    by (rule earlier_urls_ok_Cons)
  let ?vars = "vars\<lparr>crlURL := u, serverResults := serverResults vars @ [r]\<rparr>"
  have step: "CertCheckStatus_loop env c issuer fetch st hf ((u # pre) @ rest) vars w fetched =
      CertCheckStatus_loop env c issuer fetch st hf (pre @ rest) ?vars w2 (fetched @ [u])"
    using f nf v cr nr by auto
  from Cons.IH [OF rest, of ?vars "fetched @ [u]"] obtain vars' where
    "CertCheckStatus_loop env c issuer fetch st hf (pre @ rest) ?vars w2 (fetched @ [u]) =
       CertCheckStatus_loop env c issuer fetch st hf rest vars' w' ((fetched @ [u]) @ pre)"
    "lastErr vars' = lastErr ?vars"
    "serverResults vars' = serverResults ?vars @ rs'"
    by blast
  with step rs show ?case by auto
qed


text \<open>
  C5. Let the certificate list at least one distribution point and let a fetcher be
  configured. Let \<open>url\<close> be a distribution point whose bundle resolves to Revoked: its
  iteration reaches \<open>checkRevocation\<close> (the fetch returns a bundle, which is not refused
  for the freshest CRL of the certificate and passes \<open>validate\<close>) and \<open>checkRevocation\<close>
  returns a result \<open>r\<close> with status Revoked; and let every earlier distribution point
  be fetched, validated and resolved without error to another status. Then
  \<open>CertCheckStatus\<close> returns the status Revoked with the one server result \<open>r\<close>, and the
  URLs on which \<open>Fetch\<close> was called are the earlier ones and \<open>url\<close>, once each in order:
  no distribution point after \<open>url\<close> is fetched.
\<close>

theorem CertCheckStatus_revoked_short_circuit:
  assumes "CRLDistributionPoints c = pre @ url # post"
    and "Fetcher opts = Some fetch"
    and "earlier_urls_ok env c issuer fetch (SigningTime opts)
           (FindExtensionByOID (Extensions_cert c) oidFreshestCRL \<noteq> None) pre w = Some (rs, w1)"
    and "fetch url w1 = (Inr bundle, w2)"
    and "\<not> (FindExtensionByOID (Extensions_cert c) oidFreshestCRL \<noteq> None \<and>
            DeltaCRL bundle = None)"
    and "validate env bundle issuer w2 = (Return None, w3)"
    and "checkRevocation env (Some c) (Some bundle) (SigningTime opts) url = Inr r"
    and "Result r = ResultRevoked"
  shows "CertCheckStatus env (Some c) issuer opts w =
           (Return \<lparr>Result_cert = ResultRevoked, ServerResults = [r],
                    RevocationMethod_cert = RevocationMethodCRL\<rparr>,
            w3, pre @ [url])"
proof -
  let ?hf = "FindExtensionByOID (Extensions_cert c) oidFreshestCRL \<noteq> None"
  let ?vars = "\<lparr>serverResults = [], lastErr = None, crlURL = []\<rparr>"
  from CertCheckStatus_loop_prefix [OF assms(3), of "url # post" ?vars "[]"] obtain vars' where
    "CertCheckStatus_loop env c issuer fetch (SigningTime opts) ?hf (pre @ url # post) ?vars w [] =
       CertCheckStatus_loop env c issuer fetch (SigningTime opts) ?hf (url # post) vars' w1 ([] @ pre)"
    by blast
  moreover have "CertCheckStatus_loop env c issuer fetch (SigningTime opts) ?hf (url # post) vars' w1 ([] @ pre)
      = (Returned \<lparr>Result_cert = ResultRevoked, ServerResults = [r],
                    RevocationMethod_cert = RevocationMethodCRL\<rparr>, w3, pre @ [url])"
    using assms(4-8) by auto
  ultimately have "CertCheckStatus_loop env c issuer fetch (SigningTime opts) ?hf
      (CRLDistributionPoints c) ?vars w []
      = (Returned \<lparr>Result_cert = ResultRevoked, ServerResults = [r],
                    RevocationMethod_cert = RevocationMethodCRL\<rparr>, w3, pre @ [url])"
    using assms(1) by simp
  moreover have "Supported (Some c)" using assms(1) by (simp add: Supported_def)
  ultimately show ?thesis
    using assms(2) by (simp add: CertCheckStatus_def)
qed

theorem CertCheckStatus_revoked_short_circuit_witness:
  "CertCheckStatus testLibrary
     (Some (testCert 42 [''http://crl.example/good'', ''http://crl.example/revoked'',
                         ''http://crl.example/expired''] []))
     testIssuer (testOptions 10) 7
   = (Return \<lparr>Result_cert = ResultRevoked,
              ServerResults = [\<lparr>Result = ResultRevoked, Server = ''http://crl.example/revoked'',
                                 Error = None, RevocationMethod = RevocationMethodCRL\<rparr>],
              RevocationMethod_cert = RevocationMethodCRL\<rparr>,
      11, [''http://crl.example/good'', ''http://crl.example/revoked''])"
proof -
  let ?c = "testCert 42 [''http://crl.example/good'', ''http://crl.example/revoked'',
                         ''http://crl.example/expired''] []"
  let ?b = "testBundle (testCRL 5 100 [testEntry 42 3 1 []] []) None"
  let ?r = "\<lparr>Result = ResultRevoked, Server = ''http://crl.example/revoked'',
             Error = None, RevocationMethod = RevocationMethodCRL\<rparr>"
  let ?ok = "\<lparr>Result = ResultOK, Server = ''http://crl.example/good'',
             Error = None, RevocationMethod = RevocationMethodCRL\<rparr>"
  have h1: "CRLDistributionPoints ?c =
      [''http://crl.example/good''] @ ''http://crl.example/revoked'' # [''http://crl.example/expired'']"
    by (simp add: testCert_def)
  have h2: "Fetcher (testOptions 10) = Some testFetcher"
    by (simp add: testOptions_def)
  have h3: "earlier_urls_ok testLibrary ?c testIssuer testFetcher (SigningTime (testOptions 10))
      (FindExtensionByOID (Extensions_cert ?c) oidFreshestCRL \<noteq> None)
      [''http://crl.example/good''] 7 = Some ([?ok], 9)"
    by (simp add: test_defs4)
  have h4: "testFetcher ''http://crl.example/revoked'' 9 = (Inr ?b, 10)"
    by (simp add: testFetcher_def)
  have h5: "\<not> (FindExtensionByOID (Extensions_cert ?c) oidFreshestCRL \<noteq> None \<and> DeltaCRL ?b = None)"
    by (simp add: test_defs4)
  have h6: "validate testLibrary ?b testIssuer 10 = (Return None, 11)"
    by (simp add: test_defs4)
  have h7: "checkRevocation testLibrary (Some ?c) (Some ?b) (SigningTime (testOptions 10))
      ''http://crl.example/revoked'' = Inr ?r"
    by (simp add: test_defs4)
  have h8: "Result ?r = ResultRevoked" by simp
  from CertCheckStatus_revoked_short_circuit [OF h1 h2 h3 h4 h5 h6 h7 h8]
  show ?thesis by simp
qed


text \<open>
  C6. Let the certificate list at least one distribution point and let a fetcher be
  configured. Let every distribution point before \<open>url\<close> be fetched, validated and
  resolved without error to a status other than Revoked, and let a step fail at \<open>url\<close>:
  the fetch returns an error, or the certificate has a freshest CRL extension and the
  bundle has no delta CRL, or \<open>validate\<close> returns an error, or \<open>checkRevocation\<close> returns
  an error; \<open>err\<close> is the error that \<open>CertCheckStatus\<close> builds for that failure. Then
  \<open>CertCheckStatus\<close> returns the status Unknown with exactly one server result, which
  carries \<open>err\<close> and \<open>url\<close>; the results of the earlier distribution points are not in
  it; and no distribution point after \<open>url\<close> is fetched.
\<close>

theorem CertCheckStatus_error_aborts:
  assumes "CRLDistributionPoints c = pre @ url # post"
    and "Fetcher opts = Some fetch"
    and "earlier_urls_ok env c issuer fetch (SigningTime opts)
           (FindExtensionByOID (Extensions_cert c) oidFreshestCRL \<noteq> None) pre w = Some (rs, w1)"
    and "(\<exists>ferr. fetch url w1 = (Inl ferr, w2) \<and> err = FailedToDownloadCRL url ferr) \<or>
         (\<exists>bundle. fetch url w1 = (Inr bundle, w2) \<and>
            FindExtensionByOID (Extensions_cert c) oidFreshestCRL \<noteq> None \<and>
            DeltaCRL bundle = None \<and> err = FreshestCRLNotSupported) \<or>
         (\<exists>bundle w' verr. fetch url w1 = (Inr bundle, w') \<and>
            \<not> (FindExtensionByOID (Extensions_cert c) oidFreshestCRL \<noteq> None \<and>
               DeltaCRL bundle = None) \<and>
            validate env bundle issuer w' = (Return (Some verr), w2) \<and>
            err = FailedToValidateCRL url verr) \<or>
         (\<exists>bundle w' cerr. fetch url w1 = (Inr bundle, w') \<and>
            \<not> (FindExtensionByOID (Extensions_cert c) oidFreshestCRL \<noteq> None \<and>
               DeltaCRL bundle = None) \<and>
            validate env bundle issuer w' = (Return None, w2) \<and>
            checkRevocation env (Some c) (Some bundle) (SigningTime opts) url = Inl cerr \<and>
            err = FailedToCheckRevocation url cerr)"
  shows "CertCheckStatus env (Some c) issuer opts w =
           (Return \<lparr>Result_cert = ResultUnknown,
                    ServerResults = [\<lparr>Result = ResultUnknown, Server = url, Error = Some err,
                                       RevocationMethod = RevocationMethodCRL\<rparr>],
                    RevocationMethod_cert = RevocationMethodCRL\<rparr>,
            w2, pre @ [url])"
proof -
  let ?hf = "FindExtensionByOID (Extensions_cert c) oidFreshestCRL \<noteq> None"
  let ?vars = "\<lparr>serverResults = [], lastErr = None, crlURL = []\<rparr>"
  from CertCheckStatus_loop_prefix [OF assms(3), of "url # post" ?vars "[]"] obtain vars' where
    p: "CertCheckStatus_loop env c issuer fetch (SigningTime opts) ?hf (pre @ url # post) ?vars w [] =
       CertCheckStatus_loop env c issuer fetch (SigningTime opts) ?hf (url # post) vars' w1 ([] @ pre)"
    by blast
  have "CertCheckStatus_loop env c issuer fetch (SigningTime opts) ?hf (url # post) vars' w1 ([] @ pre)
      = (Left (vars'\<lparr>crlURL := url, lastErr := Some err\<rparr>), w2, pre @ [url])"
    using assms(4) by (elim disjE exE conjE) auto
  with p have "CertCheckStatus_loop env c issuer fetch (SigningTime opts) ?hf
      (CRLDistributionPoints c) ?vars w []
      = (Left (vars'\<lparr>crlURL := url, lastErr := Some err\<rparr>), w2, pre @ [url])"
    using assms(1) by simp
  moreover have "Supported (Some c)" using assms(1) by (simp add: Supported_def)
  ultimately show ?thesis
    using assms(2) by (simp add: CertCheckStatus_def)
qed


theorem CertCheckStatus_error_aborts_witness:
  "CertCheckStatus testLibrary
     (Some (testCert 42 [''http://crl.example/good'', ''http://crl.example/missing'',
                         ''http://crl.example/revoked''] []))
     testIssuer (testOptions 10) 7
   = (Return \<lparr>Result_cert = ResultUnknown,
              ServerResults = [\<lparr>Result = ResultUnknown, Server = ''http://crl.example/missing'',
                 Error = Some (FailedToDownloadCRL ''http://crl.example/missing'' ''not found''),
                 RevocationMethod = RevocationMethodCRL\<rparr>],
              RevocationMethod_cert = RevocationMethodCRL\<rparr>,
      10, [''http://crl.example/good'', ''http://crl.example/missing'']) \<and>
   CertCheckStatus testLibrary
     (Some (testCert 42 [''http://crl.example/good'']
              [crlExtension oidFreshestCRL False []]))
     testIssuer (testOptions 10) 7
   = (Return \<lparr>Result_cert = ResultUnknown,
              ServerResults = [\<lparr>Result = ResultUnknown, Server = ''http://crl.example/good'',
                 Error = Some FreshestCRLNotSupported,
                 RevocationMethod = RevocationMethodCRL\<rparr>],
              RevocationMethod_cert = RevocationMethodCRL\<rparr>,
      8, [''http://crl.example/good'']) \<and>
   CertCheckStatus testLibrary
     (Some (testCert 42 [''http://crl.example/good'', ''http://crl.example/expired''] []))
     testIssuer (testOptions 10) 7
   = (Return \<lparr>Result_cert = ResultUnknown,
              ServerResults = [\<lparr>Result = ResultUnknown, Server = ''http://crl.example/expired'',
                 Error = Some (FailedToValidateCRL ''http://crl.example/expired''
                                 (FailedToValidateBaseCRL (ExpiredCRL 10 1))),
                 RevocationMethod = RevocationMethodCRL\<rparr>],
              RevocationMethod_cert = RevocationMethodCRL\<rparr>,
      11, [''http://crl.example/good'', ''http://crl.example/expired'']) \<and>
   CertCheckStatus testLibrary
     (Some (testCert 42 [''http://crl.example/good'', ''http://crl.example/broken''] []))
     testIssuer (testOptions 10) 7
   = (Return \<lparr>Result_cert = ResultUnknown,
              ServerResults = [\<lparr>Result = ResultUnknown, Server = ''http://crl.example/broken'',
                 Error = Some (FailedToCheckRevocation ''http://crl.example/broken''
                                 (UnsupportedCriticalExtension [1, 2, 3])),
                 RevocationMethod = RevocationMethodCRL\<rparr>],
              RevocationMethod_cert = RevocationMethodCRL\<rparr>,
      11, [''http://crl.example/good'', ''http://crl.example/broken''])"
proof -
  let ?ok = "\<lparr>Result = ResultOK, Server = ''http://crl.example/good'',
             Error = None, RevocationMethod = RevocationMethodCRL\<rparr>"
  let ?c1 = "testCert 42 [''http://crl.example/good'', ''http://crl.example/missing'',
                         ''http://crl.example/revoked''] []"
  let ?c2 = "testCert 42 [''http://crl.example/good''] [crlExtension oidFreshestCRL False []]"
  let ?c3 = "testCert 42 [''http://crl.example/good'', ''http://crl.example/expired''] []"
  let ?c4 = "testCert 42 [''http://crl.example/good'', ''http://crl.example/broken''] []"
  have f: "Fetcher (testOptions 10) = Some testFetcher"
    by (simp add: testOptions_def)
  have u1: "CRLDistributionPoints ?c1 =
      [''http://crl.example/good''] @ ''http://crl.example/missing'' # [''http://crl.example/revoked'']"
    by (simp add: testCert_def)
  have p1: "earlier_urls_ok testLibrary ?c1 testIssuer testFetcher (SigningTime (testOptions 10))
      (FindExtensionByOID (Extensions_cert ?c1) oidFreshestCRL \<noteq> None)
      [''http://crl.example/good''] 7 = Some ([?ok], 9)"
    by (simp add: test_defs4)
  have e1: "\<exists>ferr. testFetcher ''http://crl.example/missing'' 9 = (Inl ferr, 10) \<and>
      FailedToDownloadCRL ''http://crl.example/missing'' ''not found'' =
      FailedToDownloadCRL ''http://crl.example/missing'' ferr"
    by (simp add: testFetcher_def)
  have r1: "CertCheckStatus testLibrary (Some ?c1) testIssuer (testOptions 10) 7
   = (Return \<lparr>Result_cert = ResultUnknown,
              ServerResults = [\<lparr>Result = ResultUnknown, Server = ''http://crl.example/missing'',
                 Error = Some (FailedToDownloadCRL ''http://crl.example/missing'' ''not found''),
                 RevocationMethod = RevocationMethodCRL\<rparr>],
              RevocationMethod_cert = RevocationMethodCRL\<rparr>,
      10, [''http://crl.example/good'', ''http://crl.example/missing''])"
    using CertCheckStatus_error_aborts [OF u1 f p1 disjI1, OF e1] by simp
  have u2: "CRLDistributionPoints ?c2 = [] @ ''http://crl.example/good'' # []"
    by (simp add: testCert_def)
  have p2: "earlier_urls_ok testLibrary ?c2 testIssuer testFetcher (SigningTime (testOptions 10))
      (FindExtensionByOID (Extensions_cert ?c2) oidFreshestCRL \<noteq> None) [] 7 = Some ([], 7)"
    by simp
  have e2: "\<exists>b. testFetcher ''http://crl.example/good'' 7 = (Inr b, 8) \<and>
      FindExtensionByOID (Extensions_cert ?c2) oidFreshestCRL \<noteq> None \<and>
      DeltaCRL b = None \<and> FreshestCRLNotSupported = FreshestCRLNotSupported"
    by (simp add: test_defs4)
  have r2: "CertCheckStatus testLibrary (Some ?c2) testIssuer (testOptions 10) 7
   = (Return \<lparr>Result_cert = ResultUnknown,
              ServerResults = [\<lparr>Result = ResultUnknown, Server = ''http://crl.example/good'',
                 Error = Some FreshestCRLNotSupported,
                 RevocationMethod = RevocationMethodCRL\<rparr>],
              RevocationMethod_cert = RevocationMethodCRL\<rparr>,
      8, [''http://crl.example/good''])"
    using CertCheckStatus_error_aborts [OF u2 f p2 disjI2, OF disjI1, OF e2] by simp
  have u3: "CRLDistributionPoints ?c3 =
      [''http://crl.example/good''] @ ''http://crl.example/expired'' # []"
    by (simp add: testCert_def)
  have p3: "earlier_urls_ok testLibrary ?c3 testIssuer testFetcher (SigningTime (testOptions 10))
      (FindExtensionByOID (Extensions_cert ?c3) oidFreshestCRL \<noteq> None)
      [''http://crl.example/good''] 7 = Some ([?ok], 9)"
    by (simp add: test_defs4)
  have e3: "\<exists>b w' verr. testFetcher ''http://crl.example/expired'' 9 = (Inr b, w') \<and>
      \<not> (FindExtensionByOID (Extensions_cert ?c3) oidFreshestCRL \<noteq> None \<and> DeltaCRL b = None) \<and>
      validate testLibrary b testIssuer w' = (Return (Some verr), 11) \<and>
      FailedToValidateCRL ''http://crl.example/expired'' (FailedToValidateBaseCRL (ExpiredCRL 10 1)) =
      FailedToValidateCRL ''http://crl.example/expired'' verr"
    by (simp add: test_defs4)
  have r3: "CertCheckStatus testLibrary (Some ?c3) testIssuer (testOptions 10) 7
   = (Return \<lparr>Result_cert = ResultUnknown,
              ServerResults = [\<lparr>Result = ResultUnknown, Server = ''http://crl.example/expired'',
                 Error = Some (FailedToValidateCRL ''http://crl.example/expired''
                                 (FailedToValidateBaseCRL (ExpiredCRL 10 1))),
                 RevocationMethod = RevocationMethodCRL\<rparr>],
              RevocationMethod_cert = RevocationMethodCRL\<rparr>,
      11, [''http://crl.example/good'', ''http://crl.example/expired''])"
    using CertCheckStatus_error_aborts [OF u3 f p3 disjI2, OF disjI2, OF disjI1, OF e3] by simp
  have u4: "CRLDistributionPoints ?c4 =
      [''http://crl.example/good''] @ ''http://crl.example/broken'' # []"
    by (simp add: testCert_def)
  have p4: "earlier_urls_ok testLibrary ?c4 testIssuer testFetcher (SigningTime (testOptions 10))
      (FindExtensionByOID (Extensions_cert ?c4) oidFreshestCRL \<noteq> None)
      [''http://crl.example/good''] 7 = Some ([?ok], 9)"
    by (simp add: test_defs4)
  have e4: "\<exists>b w' cerr. testFetcher ''http://crl.example/broken'' 9 = (Inr b, w') \<and>
      \<not> (FindExtensionByOID (Extensions_cert ?c4) oidFreshestCRL \<noteq> None \<and> DeltaCRL b = None) \<and>
      validate testLibrary b testIssuer w' = (Return None, 11) \<and>
      checkRevocation testLibrary (Some ?c4) (Some b) (SigningTime (testOptions 10))
        ''http://crl.example/broken'' = Inl cerr \<and>
      FailedToCheckRevocation ''http://crl.example/broken'' (UnsupportedCriticalExtension [1, 2, 3]) =
      FailedToCheckRevocation ''http://crl.example/broken'' cerr"
    by (simp add: test_defs4)
  have r4: "CertCheckStatus testLibrary (Some ?c4) testIssuer (testOptions 10) 7
   = (Return \<lparr>Result_cert = ResultUnknown,
              ServerResults = [\<lparr>Result = ResultUnknown, Server = ''http://crl.example/broken'',
                 Error = Some (FailedToCheckRevocation ''http://crl.example/broken''
                                 (UnsupportedCriticalExtension [1, 2, 3])),
                 RevocationMethod = RevocationMethodCRL\<rparr>],
              RevocationMethod_cert = RevocationMethodCRL\<rparr>,
      11, [''http://crl.example/good'', ''http://crl.example/broken''])"
    using CertCheckStatus_error_aborts [OF u4 f p4 disjI2, OF disjI2, OF disjI2, OF e4] by simp
  from r1 r2 r3 r4 show ?thesis by simp
qed


end
